theory Spec2Isabelle
  imports Main
begin

section \<open>Python values, faults and effects\<close>

text \<open>
  The rewriter of \<^verbatim>\<open>tf2onnx/rewriter/custom_rnn_rewriter.py\<close> mutates a shared graph
  object and may raise.  An operation is a function from the state to a result (a fault
  or a value) and the state it leaves behind: a fault does not undo what was mutated
  before it.
\<close>

datatype py_error = AttributeError | TypeError | IndexError | ValueError

type_synonym ('s, 'a) op = "'s \<Rightarrow> (py_error + 'a) \<times> 's"

definition return :: "'a \<Rightarrow> ('s, 'a) op" where
  "return x s = (Inr x, s)"

definition raise :: "py_error \<Rightarrow> ('s, 'a) op" where
  "raise e s = (Inl e, s)"

definition bindE :: "('s, 'a) op \<Rightarrow> ('a \<Rightarrow> ('s, 'b) op) \<Rightarrow> ('s, 'b) op" where
  "bindE m f s = (case m s of (Inl e, s') \<Rightarrow> (Inl e, s') | (Inr x, s') \<Rightarrow> f x s')"

text \<open>Decimal rendering of a natural number, as \<^verbatim>\<open>str\<close> and \<^verbatim>\<open>format\<close> do.\<close>

definition digit_chars :: string where
  "digit_chars = ''0123456789''"

function show_nat :: "nat \<Rightarrow> string" where
  "show_nat n = (if n < 10 then [digit_chars ! n]
                 else show_nat (n div 10) @ [digit_chars ! (n mod 10)])"
  by pat_completeness auto
termination
  by (relation "measure id") auto

declare show_nat.simps [simp del]

text \<open>\<^verbatim>\<open>s.startswith(p)\<close>.\<close>

definition startswith :: "string \<Rightarrow> string \<Rightarrow> bool" where
  "startswith s p = (take (length p) s = p)"

text \<open>\<^verbatim>\<open>s.split(c)\<close> for a one-character separator: always at least one part.\<close>

fun split_sep :: "char \<Rightarrow> string \<Rightarrow> string list" where
  "split_sep c [] = [[]]"
| "split_sep c (x # xs) =
     (if x = c then [] # split_sep c xs
      else (case split_sep c xs of
              [] \<Rightarrow> [[x]]
            | p # ps \<Rightarrow> (x # p) # ps))"

text \<open>\<^verbatim>\<open>sep.join(parts)\<close>.\<close>

fun join :: "string \<Rightarrow> string list \<Rightarrow> string" where
  "join sep [] = []"
| "join sep [p] = p"
| "join sep (p # q # ps) = p @ sep @ join sep (q # ps)"

text \<open>\<^verbatim>\<open>xs[0:-2]\<close>: everything but the last two elements (nothing when there are fewer).\<close>

definition drop_last2 :: "'a list \<Rightarrow> 'a list" where
  "drop_last2 xs = take (length xs - 2) xs"

section \<open>The data model\<close>

datatype onnx_dtype = FLOAT | INT32 | INT64 | BOOL

text \<open>
  \<^verbatim>\<open>TensorValueInfo\<close>: the id of a tensor with its dtype and shape.  The id is
  \<^verbatim>\<open>None\<close> when the loop-carried value is not consumed; a dimension \<open>-1\<close> is
  unresolved; the shape is \<^verbatim>\<open>None\<close> when nothing is known.
\<close>

record tensor_info =
  ti_id :: "string option"
  ti_dtype :: "onnx_dtype option"
  ti_shape :: "int list option"

text \<open>Truth value of an id in \<^verbatim>\<open>if tensor_value_info.id:\<close>.\<close>

fun truthy_id :: "string option \<Rightarrow> bool" where
  "truthy_id None = False"
| "truthy_id (Some s) = (s \<noteq> [])"

datatype node =
  Node (node_name: string) (op_type: string) (node_input: "string list")
       (node_output: "string list") (attr: "(string \<times> attr_value) list")
and attr_value =
    AInt int
  | AInts "int list"
  | AStr string
  | ADtype onnx_dtype
  | ATensor "int list"
  | AGraph "node list" "string list" "tensor_info list"

text \<open>A node object is always true in \<^verbatim>\<open>if not scan_node:\<close>.\<close>

definition truthy_node :: "node \<Rightarrow> bool" where
  "truthy_node n = True"

record graph =
  nodes :: "node list"
  output_shapes :: "string \<Rightarrow> int list option"
  dtypes :: "string \<Rightarrow> onnx_dtype option"
  internal_name :: nat

record loop_variable =
  enter_name :: string
  enter_input_id :: string
  is_tensor_array :: bool
  switch_true_identity_output :: tensor_info

text \<open>
  \<^verbatim>\<open>LoopProperties\<close>, as the rewriter reads it: the class is assembled by the
  loop-extraction framework, so its lists are taken as given.
\<close>

record loop_properties =
  all_variables :: "(string \<times> loop_variable) list"
  state_inputs :: "tensor_info list"
  state_outputs :: "tensor_info list"
  state_inputs_initial_values :: "string list"
  state_outputs_exits :: "tensor_info list"
  scan_inputs :: "tensor_info list"
  scan_outputs :: "tensor_info list"
  scan_inputs_initial_values :: "string list"
  scan_outputs_exits :: "tensor_info list"
  tensor_array_inputs :: "string list"

record cell_graph_info =
  cg_nodes :: "node list"
  cg_outputs :: "string list"

text \<open>\<^verbatim>\<open>CustomRnnContext\<close> with the fields of its base class that the rewriter reads.\<close>

record custom_rnn_context =
  while_context_scope :: string
  loop_properties :: loop_properties
  cell_graph :: "cell_graph_info option"
  rnn_scope :: "string option"
  time_var :: "loop_variable option"
  iteration_var :: "loop_variable option"

datatype REWRITER_RESULT = OK | FAIL

section \<open>The graph collaborator\<close>

text \<open>
  Modelled from the spec: \<^verbatim>\<open>utils.make_name\<close>, which is not among the sources.  Node
  identifiers are generated from a counter, so that two generated names differ.
\<close>

definition make_name :: "string \<Rightarrow> (graph, string) op" where
  "make_name name g =
     (let n = Suc (internal_name g)
      in (Inr (name @ ''__'' @ show_nat n), g\<lparr>internal_name := n\<rparr>))"

text \<open>
  Modelled from the spec: \<^verbatim>\<open>Graph.get_node_by_output\<close> (node lookup by output id), which
  is not among the sources.  The result is \<^verbatim>\<open>None\<close> when no node produces the id.
\<close>

definition get_node_by_output :: "graph \<Rightarrow> string \<Rightarrow> node option" where
  "get_node_by_output g output_id = find (\<lambda>n. output_id \<in> set (node_output n)) (nodes g)"

text \<open>
  Modelled from the spec: \<^verbatim>\<open>Graph.get_shape\<close> and \<^verbatim>\<open>Graph.get_dtype\<close> (shape and dtype
  introspection), which are not among the sources.
\<close>

definition get_shape :: "string \<Rightarrow> (graph, int list option) op" where
  "get_shape output_id g = (Inr (output_shapes g output_id), g)"

definition get_dtype :: "string \<Rightarrow> (graph, onnx_dtype option) op" where
  "get_dtype output_id g = (Inr (dtypes g output_id), g)"

fun set_shapes :: "string list \<Rightarrow> int list option list \<Rightarrow> graph \<Rightarrow> graph" where
  "set_shapes (out # outs) (s # ss) g = set_shapes outs ss (g\<lparr>output_shapes := (output_shapes g)(out := s)\<rparr>)"
| "set_shapes _ _ g = g"

fun set_dtypes :: "string list \<Rightarrow> onnx_dtype option list \<Rightarrow> graph \<Rightarrow> graph" where
  "set_dtypes (out # outs) (d # ds) g = set_dtypes outs ds (g\<lparr>dtypes := (dtypes g)(out := d)\<rparr>)"
| "set_dtypes _ _ g = g"

text \<open>
  Modelled from the spec: \<^verbatim>\<open>Graph.make_node\<close> (node creation from an op type, inputs,
  attributes and the declared output count, shapes and dtypes), which is not among the
  sources.  The node gets a generated name, prefixed by the name scope when one is given,
  and outputs \<^verbatim>\<open>name:0\<close>, \<^verbatim>\<open>name:1\<close>, ...; construction fails when shapes or dtypes are
  declared for another number of outputs than the node has, and the node is appended to
  the graph otherwise.
\<close>

definition scoped_name :: "string option \<Rightarrow> string \<Rightarrow> string" where
  "scoped_name op_name_scope name =
     (case op_name_scope of
        None \<Rightarrow> name
      | Some scope \<Rightarrow> if scope = [] then name else scope @ ''_'' @ name)"

definition output_ids :: "string \<Rightarrow> nat \<Rightarrow> string list" where
  "output_ids name output_count = map (\<lambda>i. name @ '':'' @ show_nat i) [0..<output_count]"

definition make_node ::
  "string \<Rightarrow> string list \<Rightarrow> (string \<times> attr_value) list \<Rightarrow> nat \<Rightarrow> int list option list
     \<Rightarrow> onnx_dtype option list \<Rightarrow> string option \<Rightarrow> (graph, node) op" where
  "make_node op inputs attrs output_count shapes dtypes_decl op_name_scope =
     bindE (make_name op) (\<lambda>generated.
       let name = scoped_name op_name_scope generated;
           outputs = output_ids name output_count;
           n = Node name op inputs outputs attrs
       in if shapes \<noteq> [] \<and> length shapes \<noteq> output_count then raise ValueError
          else if dtypes_decl \<noteq> [] \<and> length dtypes_decl \<noteq> output_count then raise ValueError
          else (\<lambda>g. (Inr n,
                 (set_dtypes outputs dtypes_decl (set_shapes outputs shapes g))
                   \<lparr>nodes := nodes g @ [n]\<rparr>)))"

text \<open>
  Modelled from the spec: \<^verbatim>\<open>Graph.make_const\<close> (constant-tensor creation), which is not
  among the sources.  The constant is a one-dimensional int64 tensor; its only output
  carries the name of the node.
\<close>

definition make_const :: "string \<Rightarrow> int list \<Rightarrow> (graph, node) op" where
  "make_const name np_val g =
     (let n = Node name ''Const'' [] [name] [(''value'', ATensor np_val)]
      in (Inr n, g\<lparr>nodes := nodes g @ [n],
                    output_shapes := (output_shapes g)(name := Some [int (length np_val)]),
                    dtypes := (dtypes g)(name := Some INT64)\<rparr>))"

text \<open>
  Modelled from the spec: \<^verbatim>\<open>Graph.remove_node\<close> (node removal by name), which is not
  among the sources.
\<close>

definition remove_node :: "string \<Rightarrow> (graph, unit) op" where
  "remove_node name g = (Inr (), g\<lparr>nodes := filter (\<lambda>n. node_name n \<noteq> name) (nodes g)\<rparr>)"

text \<open>
  Modelled from the spec: \<^verbatim>\<open>Graph.replace_all_inputs\<close> over \<^verbatim>\<open>Graph.get_nodes()\<close> (bulk
  consumer rewiring: every reference to one tensor is redirected to another), which is
  not among the sources.
\<close>

definition replace_input :: "string \<Rightarrow> string \<Rightarrow> node \<Rightarrow> node" where
  "replace_input old_input new_input n =
     Node (node_name n) (op_type n)
          (map (\<lambda>i. if i = old_input then new_input else i) (node_input n))
          (node_output n) (attr n)"

definition replace_all_inputs :: "string \<Rightarrow> string \<Rightarrow> (graph, unit) op" where
  "replace_all_inputs old_input new_input g =
     (Inr (), g\<lparr>nodes := map (replace_input old_input new_input) (nodes g)\<rparr>)"

text \<open>
  Modelled from the spec: \<^verbatim>\<open>Node.get_attr\<close> and the string field \<^verbatim>\<open>.s\<close> of an
  attribute, which are not among the sources.  A missing attribute is \<^verbatim>\<open>None\<close>; the
  string field of an attribute of another kind is empty.
\<close>

definition get_attr :: "node \<Rightarrow> string \<Rightarrow> attr_value option" where
  "get_attr n key = map_of (attr n) key"

fun attr_s :: "attr_value \<Rightarrow> string" where
  "attr_s (AStr s) = s"
| "attr_s _ = []"

text \<open>
  Modelled from the spec: \<^verbatim>\<open>LoopRewriterBase.construct_graph_from_nodes\<close>,
  \<^verbatim>\<open>Graph.add_graph_input\<close> and \<^verbatim>\<open>Node.set_body_graph_as_attr\<close>, which are not among the
  sources.  The body graph holds the nodes and outputs of the cell and the inputs declared
  on it, in the order of declaration; it is attached to the node of that name as the
  attribute given.
\<close>

record body_graph =
  bg_nodes :: "node list"
  bg_outputs :: "string list"
  bg_inputs :: "tensor_info list"

definition construct_graph_from_nodes :: "node list \<Rightarrow> string list \<Rightarrow> body_graph" where
  "construct_graph_from_nodes ns outs = \<lparr>bg_nodes = ns, bg_outputs = outs, bg_inputs = []\<rparr>"

definition add_graph_input ::
  "string option \<Rightarrow> onnx_dtype option \<Rightarrow> int list option \<Rightarrow> body_graph \<Rightarrow> body_graph" where
  "add_graph_input name dtype shape b =
     b\<lparr>bg_inputs := bg_inputs b @ [\<lparr>ti_id = name, ti_dtype = dtype, ti_shape = shape\<rparr>]\<rparr>"

definition set_attr :: "string \<Rightarrow> attr_value \<Rightarrow> node \<Rightarrow> node" where
  "set_attr key v n =
     Node (node_name n) (op_type n) (node_input n) (node_output n)
          (filter (\<lambda>kv. fst kv \<noteq> key) (attr n) @ [(key, v)])"

definition set_body_graph_as_attr :: "node \<Rightarrow> string \<Rightarrow> body_graph \<Rightarrow> (graph, unit) op" where
  "set_body_graph_as_attr n key b g =
     (Inr (), g\<lparr>nodes := map (\<lambda>m. if node_name m = node_name n
                                    then set_attr key (AGraph (bg_nodes b) (bg_outputs b) (bg_inputs b)) m
                                    else m) (nodes g)\<rparr>)"

text \<open>Indexing a list, which raises \<^verbatim>\<open>IndexError\<close> out of range.\<close>

definition py_index :: "'a list \<Rightarrow> nat \<Rightarrow> ('s, 'a) op" where
  "py_index xs i = (if i < length xs then return (xs ! i) else raise IndexError)"

definition py_last :: "'a list \<Rightarrow> ('s, 'a) op" where
  "py_last xs = (if xs = [] then raise IndexError else return (last xs))"

section \<open>The pattern classifier\<close>

text \<open>\<^verbatim>\<open>_get_rnn_scope_name\<close>: the while scope without its last two path components.\<close>

definition get_rnn_scope_name :: "string \<Rightarrow> string" where
  "get_rnn_scope_name while_scope_name =
     (let parts = split_sep (CHR ''/'') while_scope_name
      in join ''/'' (drop_last2 parts) @ ''/'')"

definition set_time_var :: "loop_variable \<Rightarrow> (custom_rnn_context, unit) op" where
  "set_time_var val ctx = (Inr (), ctx\<lparr>time_var := Some val\<rparr>)"

definition set_iteration_var :: "loop_variable \<Rightarrow> (custom_rnn_context, unit) op" where
  "set_iteration_var val ctx = (Inr (), ctx\<lparr>iteration_var := Some val\<rparr>)"

text \<open>
  The loop of \<^verbatim>\<open>_parse_rnn_loop\<close> over the loop-carried variables, with its two local
  flags.  A variable whose enter input has no producer faults on the attribute access.
\<close>

fun parse_variables ::
  "graph \<Rightarrow> string \<Rightarrow> string \<Rightarrow> string \<Rightarrow> loop_variable list \<Rightarrow> bool \<Rightarrow> bool option
     \<Rightarrow> (custom_rnn_context, bool \<times> bool option) op" where
  "parse_variables g time_name ta_array_name_prefix iteration_counter_name [] found_time is_rnn_out_ta =
     return (found_time, is_rnn_out_ta)"
| "parse_variables g time_name ta_array_name_prefix iteration_counter_name (val # vals) found_time is_rnn_out_ta =
     (case get_node_by_output g (enter_input_id val) of
        None \<Rightarrow> raise AttributeError
      | Some enter_input_node \<Rightarrow>
          if is_tensor_array val then
            (case get_attr enter_input_node ''tensor_array_name'' of
               None \<Rightarrow> raise AttributeError
             | Some a \<Rightarrow>
                 parse_variables g time_name ta_array_name_prefix iteration_counter_name vals found_time
                   (if \<not> startswith (attr_s a) ta_array_name_prefix then Some False else is_rnn_out_ta))
          else if node_name enter_input_node = time_name then
            bindE (set_time_var val) (\<lambda>_.
              parse_variables g time_name ta_array_name_prefix iteration_counter_name vals True is_rnn_out_ta)
          else if node_name enter_input_node = iteration_counter_name then
            bindE (set_iteration_var val) (\<lambda>_.
              parse_variables g time_name ta_array_name_prefix iteration_counter_name vals found_time is_rnn_out_ta)
          else
            parse_variables g time_name ta_array_name_prefix iteration_counter_name vals found_time is_rnn_out_ta)"

definition parse_rnn_loop :: "graph \<Rightarrow> (custom_rnn_context, bool) op" where
  "parse_rnn_loop g ctx =
     (case rnn_scope ctx of
        None \<Rightarrow> raise TypeError ctx
      | Some scope \<Rightarrow>
          (let time_name = scope @ ''time'';
               ta_array_name_prefix = scope @ ''dynamic_rnn/output_'';
               iteration_counter_name = while_context_scope ctx @ ''iteration_counter''
           in bindE (parse_variables g time_name ta_array_name_prefix iteration_counter_name
                       (map snd (all_variables (loop_properties ctx))) False None)
                (\<lambda>(found_time, is_rnn_out_ta).
                   if \<not> found_time \<or> is_rnn_out_ta = Some False then return False
                   else return True) ctx))"

text \<open>\<^verbatim>\<open>_parse_time_var\<close> only logs; it reads fields of the time variable.\<close>

definition parse_time_var :: "graph \<Rightarrow> (custom_rnn_context, unit) op" where
  "parse_time_var g ctx =
     (case time_var ctx of None \<Rightarrow> raise AttributeError ctx | Some v \<Rightarrow> return () ctx)"

definition need_rewrite :: "graph \<Rightarrow> (custom_rnn_context, bool) op" where
  "need_rewrite g =
     bindE (\<lambda>ctx. (Inr (), ctx\<lparr>rnn_scope := Some (get_rnn_scope_name (while_context_scope ctx))\<rparr>)) (\<lambda>_.
     bindE (parse_rnn_loop g) (\<lambda>parsed.
       if \<not> parsed then return False
       else bindE (parse_time_var g) (\<lambda>_. (\<lambda>ctx.
              if tensor_array_inputs (loop_properties ctx) = [] then return False ctx
              else return True ctx))))"

section \<open>The shape adapter\<close>

definition sys_maxsize :: int where
  "sys_maxsize = 9223372036854775807"

text \<open>The constant target shape of either direction: the nodes added and the node that
  feeds the Reshape.\<close>

definition const_target_shape :: "string \<Rightarrow> int list \<Rightarrow> (graph, node list \<times> node) op" where
  "const_target_shape target_name np_val =
     bindE (make_name (target_name @ ''_target_shape'')) (\<lambda>name.
     bindE (make_const name np_val) (\<lambda>new_shape_node.
     return ([new_shape_node], new_shape_node)))"

text \<open>Output direction, dynamic: the shape is cast, its first entry sliced off, and
  cast back.\<close>

definition dynamic_output_shape :: "node \<Rightarrow> (graph, node list \<times> node) op" where
  "dynamic_output_shape shape_node =
     bindE (py_index (node_output shape_node) 0) (\<lambda>shape_out.
     bindE (make_node ''Cast'' [shape_out] [(''to'', ADtype FLOAT)] 1 [] [] None) (\<lambda>origin_shape_node.
     bindE (py_index (node_output origin_shape_node) 0) (\<lambda>origin_out.
     bindE (make_node ''Slice'' [origin_out]
              [(''axes'', AInts [0]), (''starts'', AInts [1]), (''ends'', AInts [sys_maxsize])]
              1 [] [] None) (\<lambda>sliced_shape_node.
     bindE (py_index (node_output sliced_shape_node) 0) (\<lambda>sliced_out.
     bindE (make_node ''Cast'' [sliced_out] [(''to'', ADtype INT64)] 1 [] [] None) (\<lambda>new_shape_node.
     return ([origin_shape_node, sliced_shape_node, new_shape_node], new_shape_node)))))))"

text \<open>Input direction, dynamic: a constant 1 is put in front of the runtime shape.\<close>

definition dynamic_input_shape :: "string \<Rightarrow> node \<Rightarrow> (graph, node list \<times> node) op" where
  "dynamic_input_shape target_name shape_node =
     bindE (make_name (target_name @ ''_target_shape'')) (\<lambda>name.
     bindE (make_const name [1]) (\<lambda>fake_batch_size_node.
     bindE (py_index (node_output fake_batch_size_node) 0) (\<lambda>fake_out.
     bindE (py_index (node_output shape_node) 0) (\<lambda>shape_out.
     bindE (make_node ''Concat'' [fake_out, shape_out] [(''axis'', AInt 0)] 1 [] [] None) (\<lambda>new_shape_node.
     return ([fake_batch_size_node, new_shape_node], new_shape_node))))))"

text \<open>\<^verbatim>\<open>_adapt_scan_sequence_input_or_output\<close>.  The new shape is computed from the
  inferred shape after the branch, whichever branch was taken.\<close>

definition adapt_scan_sequence_input_or_output ::
  "string \<Rightarrow> string \<Rightarrow> bool \<Rightarrow> (graph, node list) op" where
  "adapt_scan_sequence_input_or_output target_name input_id handle_output =
     bindE (make_node ''Shape'' [input_id] [] 1 [] [] None) (\<lambda>shape_node.
     bindE (get_shape input_id) (\<lambda>inferred_shape.
     bindE (if handle_output then
              bindE (case inferred_shape of
                       None \<Rightarrow> dynamic_output_shape shape_node
                     | Some s \<Rightarrow>
                         if count_list (drop 1 s) (- 1) \<le> 1
                         then const_target_shape target_name (drop 1 s)
                         else dynamic_output_shape shape_node) (\<lambda>(added, new_shape_node).
              (case inferred_shape of
                 None \<Rightarrow> raise TypeError
               | Some s \<Rightarrow> return (added, new_shape_node, drop 1 s)))
            else
              bindE (case inferred_shape of
                       None \<Rightarrow> dynamic_input_shape target_name shape_node
                     | Some s \<Rightarrow>
                         if count_list s (- 1) \<le> 1
                         then const_target_shape target_name (1 # s)
                         else dynamic_input_shape target_name shape_node) (\<lambda>(added, new_shape_node).
              (case inferred_shape of
                 None \<Rightarrow> raise TypeError
               | Some s \<Rightarrow> return (added, new_shape_node, 1 # s))))
       (\<lambda>(added, new_shape_node, new_shape).
     bindE (py_index (node_output new_shape_node) 0) (\<lambda>new_shape_out.
     bindE (get_dtype input_id) (\<lambda>dtype.
     bindE (make_node ''Reshape'' [input_id, new_shape_out] [] 1 [Some new_shape] [dtype]
              (Some target_name)) (\<lambda>reshape_node.
     return (shape_node # added @ [reshape_node])))))))"

section \<open>The scan synthesizer and the output reconnector\<close>

text \<open>The body of the loop of \<^verbatim>\<open>_create_scan_node\<close> over the exit tensors: the declared
  shape and dtype of one output, and the removal of the exit node of a tensor with an id.\<close>

definition exit_step :: "tensor_info \<Rightarrow> (graph, int list option \<times> onnx_dtype option) op" where
  "exit_step tensor_value_info =
     (case ti_id tensor_value_info of
        None \<Rightarrow> return (None, None)
      | Some i \<Rightarrow>
          if i = [] then return (None, None)
          else (case ti_shape tensor_value_info of
                  None \<Rightarrow> raise TypeError
                | Some s \<Rightarrow> (\<lambda>g.
                    (case get_node_by_output g i of
                       None \<Rightarrow> raise AttributeError g
                     | Some n \<Rightarrow>
                         bindE (remove_node (node_name n))
                           (\<lambda>_. return (Some (1 # s), ti_dtype tensor_value_info)) g))))"

fun collect_exits ::
  "tensor_info list \<Rightarrow> (graph, int list option list \<times> onnx_dtype option list) op" where
  "collect_exits [] = return ([], [])"
| "collect_exits (tensor_value_info # rest) =
     bindE (exit_step tensor_value_info) (\<lambda>(shape, dtype).
     bindE (collect_exits rest) (\<lambda>(loop_outputs_shapes, loop_outputs_dtypes).
     return (shape # loop_outputs_shapes, dtype # loop_outputs_dtypes)))"

definition create_scan_node ::
  "custom_rnn_context \<Rightarrow> loop_properties \<Rightarrow> string list \<Rightarrow> (graph, node) op" where
  "create_scan_node ctx scan_props init_values =
     bindE (collect_exits (state_outputs_exits scan_props @ scan_outputs_exits scan_props))
       (\<lambda>(loop_outputs_shapes, loop_outputs_dtypes).
     make_node ''Scan'' ([] # init_values)
       [(''num_scan_inputs'', AInt (int (length (scan_inputs scan_props))))]
       (length (state_outputs scan_props @ scan_outputs scan_props))
       loop_outputs_shapes loop_outputs_dtypes (Some ''custom_rnn_scan''))"

text \<open>One loop of \<^verbatim>\<open>_connect_scan_with_output\<close>; the index advances for every exit.\<close>

fun connect_exits :: "string \<Rightarrow> node \<Rightarrow> tensor_info list \<Rightarrow> nat \<Rightarrow> (graph, nat) op" where
  "connect_exits target_name scan_node [] index = return index"
| "connect_exits target_name scan_node (out_tensor_value_info # rest) index =
     bindE (case ti_id out_tensor_value_info of
              None \<Rightarrow> return ()
            | Some i \<Rightarrow>
                if i = [] then return ()
                else
                  bindE (py_index (node_output scan_node) index) (\<lambda>scan_out.
                  bindE (adapt_scan_sequence_input_or_output target_name scan_out True) (\<lambda>ns.
                  bindE (py_last ns) (\<lambda>l.
                  bindE (py_index (node_output l) 0) (\<lambda>new_out.
                  replace_all_inputs i new_out)))))
       (\<lambda>_. connect_exits target_name scan_node rest (index + 1))"

definition connect_scan_with_output :: "custom_rnn_context \<Rightarrow> node \<Rightarrow> (graph, unit) op" where
  "connect_scan_with_output ctx scan_node =
     bindE (connect_exits ''state_output_reshape'' scan_node
              (state_outputs_exits (loop_properties ctx)) 0) (\<lambda>index.
     bindE (connect_exits ''scan_output_reshape'' scan_node
              (scan_outputs_exits (loop_properties ctx)) index) (\<lambda>_.
     return ()))"

section \<open>The rewrite\<close>

text \<open>The two loops of \<^verbatim>\<open>rewrite\<close> that adapt the initial values.\<close>

fun adapt_initial_values :: "string list \<Rightarrow> (graph, string list) op" where
  "adapt_initial_values [] = return []"
| "adapt_initial_values (v # vs) =
     bindE (adapt_scan_sequence_input_or_output ''input'' v False) (\<lambda>ns.
     bindE (py_last ns) (\<lambda>l.
     bindE (py_index (node_output l) 0) (\<lambda>adapted.
     bindE (adapt_initial_values vs) (\<lambda>others.
     return (adapted # others)))))"

definition add_graph_inputs :: "tensor_info list \<Rightarrow> body_graph \<Rightarrow> body_graph" where
  "add_graph_inputs infos b =
     foldl (\<lambda>acc input_tensor_info.
              add_graph_input (ti_id input_tensor_info) (ti_dtype input_tensor_info)
                (ti_shape input_tensor_info) acc) b infos"

text \<open>The body of the \<^verbatim>\<open>try\<close> block of \<^verbatim>\<open>rewrite\<close>.\<close>

definition rewrite_try :: "custom_rnn_context \<Rightarrow> (graph, REWRITER_RESULT) op" where
  "rewrite_try ctx =
     (let scan_props = loop_properties ctx in
      bindE (adapt_initial_values (state_inputs_initial_values scan_props)) (\<lambda>state_vals.
      bindE (adapt_initial_values (scan_inputs_initial_values scan_props)) (\<lambda>scan_vals.
      (case cell_graph ctx of
         None \<Rightarrow> raise AttributeError
       | Some cell_g_info \<Rightarrow>
           (let scan_body_g =
                  add_graph_inputs (scan_inputs scan_props)
                    (add_graph_inputs (state_inputs scan_props)
                       (construct_graph_from_nodes (cg_nodes cell_g_info) (cg_outputs cell_g_info)))
            in bindE (create_scan_node ctx scan_props (state_vals @ scan_vals)) (\<lambda>scan_node.
                 if \<not> truthy_node scan_node then return FAIL
                 else
                   bindE (set_body_graph_as_attr scan_node ''body'' scan_body_g) (\<lambda>_.
                   bindE (connect_scan_with_output ctx scan_node) (\<lambda>_.
                   return OK))))))))"

text \<open>\<^verbatim>\<open>rewrite\<close>: every fault of the body is caught and reported as \<^verbatim>\<open>FAIL\<close>; the graph
  stays as the body left it.\<close>

definition rewrite :: "custom_rnn_context \<Rightarrow> graph \<Rightarrow> REWRITER_RESULT \<times> graph" where
  "rewrite ctx g =
     (case rewrite_try ctx g of
        (Inl ex, g') \<Rightarrow> (FAIL, g')
      | (Inr result, g') \<Rightarrow> (result, g'))"

section \<open>Predicates of the statements\<close>

text \<open>The adapter takes its constant-shape branch: the shape is known and, without the
  leading axis in the output direction, has at most one unresolved dimension.\<close>

definition constant_shape_case :: "graph \<Rightarrow> string \<Rightarrow> bool \<Rightarrow> bool" where
  "constant_shape_case g x handle_output =
     (case output_shapes g x of
        None \<Rightarrow> False
      | Some s \<Rightarrow> count_list (if handle_output then drop 1 s else s) (- 1) \<le> 1)"

text \<open>The loop-carried variables in the order of the loop of \<^verbatim>\<open>_parse_rnn_loop\<close>, the
  name of the node that produces the enter input of a variable, and the tensor-array name
  declared on that node.\<close>

definition loop_variables :: "custom_rnn_context \<Rightarrow> loop_variable list" where
  "loop_variables ctx = map snd (all_variables (loop_properties ctx))"

definition enter_node_name :: "graph \<Rightarrow> loop_variable \<Rightarrow> string option" where
  "enter_node_name g val = map_option node_name (get_node_by_output g (enter_input_id val))"

definition declared_ta_name :: "graph \<Rightarrow> loop_variable \<Rightarrow> string option" where
  "declared_ta_name g val =
     (case get_node_by_output g (enter_input_id val) of
        None \<Rightarrow> None
      | Some n \<Rightarrow> map_option attr_s (get_attr n ''tensor_array_name''))"

text \<open>Every enter input has a producer in the graph, and the producer of a tensor-array
  variable carries a tensor-array name.\<close>

definition enter_nodes_resolved :: "graph \<Rightarrow> loop_variable list \<Rightarrow> bool" where
  "enter_nodes_resolved g vals =
     list_all (\<lambda>val. if is_tensor_array val then declared_ta_name g val \<noteq> None
                     else enter_node_name g val \<noteq> None) vals"

text \<open>A variable that is no tensor array and whose enter input node has the given name; a
  tensor-array variable whose declared name starts, or does not start, with a prefix.\<close>

definition named_var :: "graph \<Rightarrow> string \<Rightarrow> loop_variable \<Rightarrow> bool" where
  "named_var g name val = (\<not> is_tensor_array val \<and> enter_node_name g val = Some name)"

definition mismatched_ta :: "graph \<Rightarrow> string \<Rightarrow> loop_variable \<Rightarrow> bool" where
  "mismatched_ta g pf val =
     (is_tensor_array val \<and>
      (case declared_ta_name g val of None \<Rightarrow> True | Some n \<Rightarrow> \<not> startswith n pf))"

definition prefixed_ta :: "graph \<Rightarrow> string \<Rightarrow> loop_variable \<Rightarrow> bool" where
  "prefixed_ta g pf val =
     (is_tensor_array val \<and>
      (case declared_ta_name g val of None \<Rightarrow> False | Some n \<Rightarrow> startswith n pf))"

text \<open>The context fields that the loop of \<^verbatim>\<open>_parse_rnn_loop\<close> leaves behind.\<close>

fun record_vars ::
  "graph \<Rightarrow> string \<Rightarrow> string \<Rightarrow> loop_variable list \<Rightarrow> custom_rnn_context \<Rightarrow> custom_rnn_context" where
  "record_vars g tn itn [] ctx = ctx"
| "record_vars g tn itn (v # vs) ctx =
     record_vars g tn itn vs
       (if named_var g tn v then ctx\<lparr>time_var := Some v\<rparr>
        else if named_var g itn v then ctx\<lparr>iteration_var := Some v\<rparr>
        else ctx)"

text \<open>
  Modelled from the spec: the derived partitions of \<^verbatim>\<open>LoopProperties\<close>, which is not among
  the sources.  The state lists are taken from the loop-carried variables that are no
  tensor arrays, in their order, and the lists of scan outputs from those that are; the scan
  inputs are taken from the tensor-array inputs; the lists of one kind correspond index by
  index.
\<close>

definition derived_partitions :: "loop_properties \<Rightarrow> bool" where
  "derived_partitions lp =
     (let vars = map snd (all_variables lp);
          state_variables = filter (\<lambda>v. \<not> is_tensor_array v) vars;
          scan_variables = filter is_tensor_array vars
      in state_inputs lp = map switch_true_identity_output state_variables
         \<and> state_inputs_initial_values lp = map enter_input_id state_variables
         \<and> length (state_outputs lp) = length state_variables
         \<and> length (state_outputs_exits lp) = length state_variables
         \<and> length (scan_outputs lp) = length scan_variables
         \<and> length (scan_outputs_exits lp) = length scan_variables
         \<and> length (scan_inputs lp) = length (tensor_array_inputs lp)
         \<and> length (scan_inputs_initial_values lp) = length (tensor_array_inputs lp))"

text \<open>What a Scan node of a graph declares: the number of its outputs and their declared
  shapes, its number of scan inputs, and the ids of the inputs of its body graph.\<close>

fun body_input_ids :: "attr_value option \<Rightarrow> string option list" where
  "body_input_ids (Some (AGraph ns outs ins)) = map ti_id ins"
| "body_input_ids _ = []"

definition scan_declarations ::
  "graph \<Rightarrow> (nat \<times> int list option list \<times> attr_value option \<times> string option list) list" where
  "scan_declarations g =
     map (\<lambda>n. (length (node_output n), map (output_shapes g) (node_output n),
                get_attr n ''num_scan_inputs'', body_input_ids (get_attr n ''body'')))
       (filter (\<lambda>n. op_type n = ''Scan'') (nodes g))"

section \<open>Example inputs\<close>

text \<open>A small graph around one loop: an initial state, an input sequence, the two exit
  nodes of the loop with a consumer each, and tensors of some other shapes.\<close>

definition example_graph :: graph where
  "example_graph =
     \<lparr>nodes =
        [Node ''rnn/init_state'' ''Const'' [] [''rnn/init_state:0''] [],
         Node ''rnn/seq'' ''Placeholder'' [] [''rnn/seq:0''] [],
         Node ''rnn/while/Exit_2'' ''Exit'' [''rnn/while/Switch_2:0''] [''rnn/while/Exit_2:0''] [],
         Node ''rnn/while/Exit_3'' ''Exit'' [''rnn/while/Switch_3:0''] [''rnn/while/Exit_3:0''] [],
         Node ''final_state'' ''Identity'' [''rnn/while/Exit_2:0''] [''final_state:0''] [],
         Node ''outputs'' ''Identity'' [''rnn/while/Exit_3:0''] [''outputs:0''] []],
      output_shapes =
        (\<lambda>_. None)(''rnn/init_state:0'' := Some [4], ''rnn/seq:0'' := Some [- 1, 4],
                    ''batch:0'' := Some [2, 3, 5], ''dyn_out:0'' := Some [1, - 1, - 1, 4]),
      dtypes = (\<lambda>_. None)(''rnn/init_state:0'' := Some FLOAT, ''rnn/seq:0'' := Some FLOAT),
      internal_name = 1\<rparr>"

text \<open>A graph with the nodes that enter a loop of scope \<^verbatim>\<open>rnn/while/\<close>: the step counter,
  the iteration counter of the while scope, a counter of the same name in the derived scope,
  the output tensor array of this loop and one of another loop.\<close>

definition classifier_graph :: graph where
  "classifier_graph =
     \<lparr>nodes =
        [Node ''rnn/time'' ''Const'' [] [''rnn/time:0''] [],
         Node ''rnn/while/iteration_counter'' ''Const'' [] [''rnn/while/iteration_counter:0''] [],
         Node ''rnn/iteration_counter'' ''Const'' [] [''rnn/iteration_counter:0''] [],
         Node ''rnn/TensorArray'' ''TensorArrayV3'' [''rnn/strided_slice:0'']
           [''rnn/TensorArray:0'', ''rnn/TensorArray:1'']
           [(''tensor_array_name'', AStr ''rnn/dynamic_rnn/output_0'')],
         Node ''other/TensorArray'' ''TensorArrayV3'' [''other/strided_slice:0'']
           [''other/TensorArray:0'', ''other/TensorArray:1'']
           [(''tensor_array_name'', AStr ''other/dynamic_rnn/output_0'')]],
      output_shapes = (\<lambda>_. None), dtypes = (\<lambda>_. None), internal_name = 1\<rparr>"

definition plain_variable :: "string \<Rightarrow> string \<Rightarrow> bool \<Rightarrow> loop_variable" where
  "plain_variable name input_id ta =
     \<lparr>enter_name = name, enter_input_id = input_id, is_tensor_array = ta,
      switch_true_identity_output = \<lparr>ti_id = None, ti_dtype = None, ti_shape = None\<rparr>\<rparr>"

definition time_variable :: loop_variable where
  "time_variable = plain_variable ''rnn/while/Enter'' ''rnn/time:0'' False"

definition iteration_variable :: loop_variable where
  "iteration_variable =
     plain_variable ''rnn/while/Enter_1'' ''rnn/while/iteration_counter:0'' False"

definition misplaced_counter :: loop_variable where
  "misplaced_counter = plain_variable ''rnn/while/Enter_1'' ''rnn/iteration_counter:0'' False"

definition output_ta :: loop_variable where
  "output_ta = plain_variable ''rnn/while/Enter_2'' ''rnn/TensorArray:1'' True"

definition foreign_ta :: loop_variable where
  "foreign_ta = plain_variable ''rnn/while/Enter_3'' ''other/TensorArray:1'' True"

definition loop_context :: "loop_variable list \<Rightarrow> custom_rnn_context" where
  "loop_context vals =
     \<lparr>while_context_scope = ''rnn/while/'',
      loop_properties =
        \<lparr>all_variables = map (\<lambda>v. (enter_name v, v)) vals,
         state_inputs = [], state_outputs = [], state_inputs_initial_values = [],
         state_outputs_exits = [], scan_inputs = [], scan_outputs = [],
         scan_inputs_initial_values = [], scan_outputs_exits = [],
         tensor_array_inputs = [''rnn/TensorArray_1:1'']\<rparr>,
      cell_graph = None, rnn_scope = None, time_var = None, iteration_var = None\<rparr>"

text \<open>A loop with one state variable and one sequence: the initial state and the input
  sequence, the tensors of the loop body, the two exits, and a cell of one node.  The
  initial state and the declared shape of the scan exit are left open.\<close>

definition float_tensor :: "string \<Rightarrow> int list option \<Rightarrow> tensor_info" where
  "float_tensor i s = \<lparr>ti_id = Some i, ti_dtype = Some FLOAT, ti_shape = s\<rparr>"

definition rewrite_context :: "string \<Rightarrow> int list option \<Rightarrow> custom_rnn_context" where
  "rewrite_context state_init scan_exit_shape =
     \<lparr>while_context_scope = ''rnn/while/'',
      loop_properties =
        \<lparr>all_variables = [],
         state_inputs = [float_tensor ''rnn/while/Identity_2:0'' (Some [4])],
         state_outputs = [float_tensor ''rnn/while/NextIteration_2:0'' (Some [4])],
         state_inputs_initial_values = [state_init],
         state_outputs_exits = [float_tensor ''rnn/while/Exit_2:0'' (Some [4])],
         scan_inputs = [float_tensor ''rnn/while/TensorArrayReadV3:0'' (Some [4])],
         scan_outputs = [float_tensor ''rnn/while/NextIteration_3:0'' (Some [4])],
         scan_inputs_initial_values = [''rnn/seq:0''],
         scan_outputs_exits = [float_tensor ''rnn/while/Exit_3:0'' scan_exit_shape],
         tensor_array_inputs = [''rnn/TensorArray_1:1'']\<rparr>,
      cell_graph =
        Some \<lparr>cg_nodes =
                [Node ''rnn/while/add'' ''Add''
                   [''rnn/while/Identity_2:0'', ''rnn/while/TensorArrayReadV3:0'']
                   [''rnn/while/add:0''] []],
              cg_outputs = [''rnn/while/add:0'', ''rnn/while/add:0'']\<rparr>,
      rnn_scope = None, time_var = None, iteration_var = None\<rparr>"


text \<open>The same loop with its scan output missing from the declared outputs, so that the
  Scan node is asked for one output with two declared shapes; and the two exit nodes of the
  example graph.\<close>

definition undeclared_output_context :: custom_rnn_context where
  "undeclared_output_context =
     (rewrite_context ''rnn/init_state:0'' (Some [4]))
       \<lparr>loop_properties :=
          (loop_properties (rewrite_context ''rnn/init_state:0'' (Some [4])))
            \<lparr>scan_outputs := []\<rparr>\<rparr>"

definition exit_2 :: node where
  "exit_2 = Node ''rnn/while/Exit_2'' ''Exit'' [''rnn/while/Switch_2:0''] [''rnn/while/Exit_2:0''] []"

definition exit_3 :: node where
  "exit_3 = Node ''rnn/while/Exit_3'' ''Exit'' [''rnn/while/Switch_3:0''] [''rnn/while/Exit_3:0''] []"

text \<open>The loop of \<^verbatim>\<open>dynamic_rnn\<close> with its step counter: the loop variables are the
  counter, the output tensor array and one state variable, and the graph has the nodes that
  enter the loop besides those of the example graph.  The state lists hold the counter,
  whose exit is not consumed, and the state variable.\<close>

definition counter_graph :: graph where
  "counter_graph =
     example_graph
       \<lparr>nodes :=
          [Node ''rnn/time'' ''Const'' [] [''rnn/time:0''] [],
           Node ''rnn/TensorArray'' ''TensorArrayV3'' [''rnn/strided_slice:0'']
             [''rnn/TensorArray:0'', ''rnn/TensorArray:1'']
             [(''tensor_array_name'', AStr ''rnn/dynamic_rnn/output_0'')]]
          @ nodes example_graph,
        output_shapes := (output_shapes example_graph)(''rnn/time:0'' := Some []),
        dtypes := (dtypes example_graph)(''rnn/time:0'' := Some INT32)\<rparr>"

definition counter_variable :: loop_variable where
  "counter_variable =
     \<lparr>enter_name = ''rnn/while/Enter'', enter_input_id = ''rnn/time:0'', is_tensor_array = False,
      switch_true_identity_output =
        \<lparr>ti_id = Some ''rnn/while/Identity:0'', ti_dtype = Some INT32, ti_shape = Some []\<rparr>\<rparr>"

definition accumulator_variable :: loop_variable where
  "accumulator_variable =
     \<lparr>enter_name = ''rnn/while/Enter_1'', enter_input_id = ''rnn/TensorArray:1'',
      is_tensor_array = True,
      switch_true_identity_output = float_tensor ''rnn/while/Identity_1:0'' None\<rparr>"

definition state_variable :: loop_variable where
  "state_variable =
     \<lparr>enter_name = ''rnn/while/Enter_2'', enter_input_id = ''rnn/init_state:0'',
      is_tensor_array = False,
      switch_true_identity_output = float_tensor ''rnn/while/Identity_2:0'' (Some [4])\<rparr>"

definition counter_context :: custom_rnn_context where
  "counter_context =
     \<lparr>while_context_scope = ''rnn/while/'',
      loop_properties =
        \<lparr>all_variables =
           [(''rnn/while/Enter'', counter_variable),
            (''rnn/while/Enter_1'', accumulator_variable),
            (''rnn/while/Enter_2'', state_variable)],
         state_inputs =
           [switch_true_identity_output counter_variable,
            switch_true_identity_output state_variable],
         state_outputs =
           [\<lparr>ti_id = Some ''rnn/while/NextIteration:0'', ti_dtype = Some INT32, ti_shape = Some []\<rparr>,
            float_tensor ''rnn/while/NextIteration_2:0'' (Some [4])],
         state_inputs_initial_values = [''rnn/time:0'', ''rnn/init_state:0''],
         state_outputs_exits =
           [\<lparr>ti_id = None, ti_dtype = None, ti_shape = None\<rparr>,
            float_tensor ''rnn/while/Exit_2:0'' (Some [4])],
         scan_inputs = [float_tensor ''rnn/while/TensorArrayReadV3:0'' (Some [4])],
         scan_outputs = [float_tensor ''rnn/while/NextIteration_1:0'' (Some [4])],
         scan_inputs_initial_values = [''rnn/seq:0''],
         scan_outputs_exits = [float_tensor ''rnn/while/Exit_3:0'' (Some [4])],
         tensor_array_inputs = [''rnn/TensorArray_1:1'']\<rparr>,
      cell_graph =
        Some \<lparr>cg_nodes =
                [Node ''rnn/while/add_1'' ''Add''
                   [''rnn/while/Identity:0'', ''rnn/while/add_1/y:0'']
                   [''rnn/while/add_1:0''] [],
                 Node ''rnn/while/add'' ''Add''
                   [''rnn/while/Identity_2:0'', ''rnn/while/TensorArrayReadV3:0'']
                   [''rnn/while/add:0''] []],
              cg_outputs = [''rnn/while/add_1:0'', ''rnn/while/add:0'', ''rnn/while/add:0'']\<rparr>,
      rnn_scope = None, time_var = None, iteration_var = None\<rparr>"

section \<open>Auxiliary facts\<close>

lemma show_nat_0: "show_nat 0 = ''0''"
  by (simp add: show_nat.simps digit_chars_def)

lemma show_nat_1: "show_nat (Suc 0) = ''1''"
  by (simp add: show_nat.simps digit_chars_def)

lemma show_nat_2: "show_nat (Suc (Suc 0)) = ''2''"
  by (simp add: show_nat.simps digit_chars_def)

lemma show_nat_nonempty: "show_nat n \<noteq> []"
  by (subst show_nat.simps) simp

lemma show_nat_length_mono: "length (show_nat n) \<le> length (show_nat (Suc n))"
proof (induction n rule: less_induct)
  case (less n)
  show ?case
  proof (cases "n < 10")
    case True
    have "length (show_nat n) = 1"
      using True by (subst show_nat.simps) simp
    moreover have "1 \<le> length (show_nat (Suc n))"
      using show_nat_nonempty [of "Suc n"] by (cases "show_nat (Suc n)") auto
    ultimately show ?thesis by simp
  next
    case False
    then have l: "length (show_nat n) = Suc (length (show_nat (n div 10)))"
      by (subst show_nat.simps) simp
    from False have r: "length (show_nat (Suc n)) = Suc (length (show_nat (Suc n div 10)))"
      by (subst show_nat.simps) simp
    have "Suc n div 10 = n div 10 \<or> Suc n div 10 = Suc (n div 10)"
      by (simp add: div_Suc)
    moreover have "length (show_nat (n div 10)) \<le> length (show_nat (Suc (n div 10)))"
      using less.IH [of "n div 10"] False by simp
    ultimately show ?thesis using l r by auto
  qed
qed

text \<open>The output of a generated Shape node is never the name of the constant generated
  next: the name of the constant is longer.\<close>

lemma shape_id_not_const_name:
  "''Shape__'' @ show_nat n @ '':0'' \<noteq> t @ ''_target_shape__'' @ show_nat (Suc n)"
proof
  assume "''Shape__'' @ show_nat n @ '':0'' = t @ ''_target_shape__'' @ show_nat (Suc n)"
  then have "length (''Shape__'' @ show_nat n @ '':0'')
      = length (t @ ''_target_shape__'' @ show_nat (Suc n))"
    by (rule arg_cong)
  then show False using show_nat_length_mono [of n] by simp
qed

lemma output_ids_1: "output_ids name (Suc 0) = [name @ '':0'']"
  by (simp add: output_ids_def show_nat_0)

lemma output_ids_2: "output_ids name 2 = [name @ '':0'', name @ '':1'']"
  by (simp add: output_ids_def show_nat_0 show_nat_1 numeral_2_eq_2)

lemmas op_defs = bindE_def return_def raise_def py_index_def py_last_def

subsection \<open>What the graph operations of the adapter return\<close>

lemma make_node_plain:
  "make_node op ins attrs (Suc 0) [] [] None g =
     (Inr (Node (op @ ''__'' @ show_nat (Suc (internal_name g))) op ins
             [op @ ''__'' @ show_nat (Suc (internal_name g)) @ '':0''] attrs),
      g\<lparr>internal_name := Suc (internal_name g),
        nodes := nodes g @ [Node (op @ ''__'' @ show_nat (Suc (internal_name g))) op ins
             [op @ ''__'' @ show_nat (Suc (internal_name g)) @ '':0''] attrs]\<rparr>)"
  by (simp add: make_node_def make_name_def op_defs Let_def output_ids_1 scoped_name_def)

lemma make_node_reshape:
  "make_node ''Reshape'' ins [] (Suc 0) [Some sh] [d] (Some t) g =
     (Inr (Node (scoped_name (Some t) (''Reshape__'' @ show_nat (Suc (internal_name g))))
             ''Reshape'' ins
             [scoped_name (Some t) (''Reshape__'' @ show_nat (Suc (internal_name g))) @ '':0''] []),
      g\<lparr>internal_name := Suc (internal_name g),
        nodes := nodes g @
          [Node (scoped_name (Some t) (''Reshape__'' @ show_nat (Suc (internal_name g))))
             ''Reshape'' ins
             [scoped_name (Some t) (''Reshape__'' @ show_nat (Suc (internal_name g))) @ '':0''] []],
        output_shapes := (output_shapes g)
          (scoped_name (Some t) (''Reshape__'' @ show_nat (Suc (internal_name g))) @ '':0'' := Some sh),
        dtypes := (dtypes g)
          (scoped_name (Some t) (''Reshape__'' @ show_nat (Suc (internal_name g))) @ '':0'' := d)\<rparr>)"
  by (simp add: make_node_def make_name_def op_defs Let_def output_ids_1)

lemma const_target_shape_eq:
  "const_target_shape t v g =
     (Inr ([Node (t @ ''_target_shape__'' @ show_nat (Suc (internal_name g))) ''Const'' []
              [t @ ''_target_shape__'' @ show_nat (Suc (internal_name g))] [(''value'', ATensor v)]],
           Node (t @ ''_target_shape__'' @ show_nat (Suc (internal_name g))) ''Const'' []
              [t @ ''_target_shape__'' @ show_nat (Suc (internal_name g))] [(''value'', ATensor v)]),
      g\<lparr>internal_name := Suc (internal_name g),
        nodes := nodes g @
          [Node (t @ ''_target_shape__'' @ show_nat (Suc (internal_name g))) ''Const'' []
              [t @ ''_target_shape__'' @ show_nat (Suc (internal_name g))] [(''value'', ATensor v)]],
        output_shapes := (output_shapes g)
          (t @ ''_target_shape__'' @ show_nat (Suc (internal_name g)) := Some [int (length v)]),
        dtypes := (dtypes g)
          (t @ ''_target_shape__'' @ show_nat (Suc (internal_name g)) := Some INT64)\<rparr>)"
  by (simp add: const_target_shape_def make_const_def make_name_def op_defs Let_def)

lemmas adapt_simps =
  adapt_scan_sequence_input_or_output_def make_node_plain make_node_reshape
  const_target_shape_eq dynamic_output_shape_def dynamic_input_shape_def make_const_def
  make_name_def get_shape_def get_dtype_def op_defs Let_def

lemma adapt_input_unknown:
  assumes "output_shapes g x = None"
  shows "fst (adapt_scan_sequence_input_or_output t x False g) = Inl TypeError"
  using assms by (simp add: adapt_simps)

lemma adapt_input_dynamic:
  assumes "output_shapes g x = Some s" and "2 \<le> count_list s (- 1)"
  shows "\<exists>shape_node const concat reshape g'.
     adapt_scan_sequence_input_or_output t x False g
       = (Inr [shape_node, const, concat, reshape], g')
     \<and> op_type shape_node = ''Shape'' \<and> node_input shape_node = [x]
     \<and> op_type const = ''Const'' \<and> attr const = [(''value'', ATensor [1])]
     \<and> op_type concat = ''Concat''
     \<and> node_input concat = node_output const @ node_output shape_node
     \<and> op_type reshape = ''Reshape'' \<and> node_input reshape = x # node_output concat"
  using assms by (simp add: adapt_simps)

subsection \<open>The classifier on loops whose enter inputs resolve\<close>

lemma parse_variables_resolved:
  assumes "enter_nodes_resolved g vals"
  shows "parse_variables g tn pf itn vals ft ta ctx =
           (Inr (ft \<or> list_ex (named_var g tn) vals,
                 if list_ex (mismatched_ta g pf) vals then Some False else ta),
            record_vars g tn itn vals ctx)"
  using assms
proof (induction vals arbitrary: ft ta ctx)
  case Nil
  then show ?case by (simp add: return_def)
next
  case (Cons val vals)
  from Cons.prems have rest: "enter_nodes_resolved g vals"
    by (simp add: enter_nodes_resolved_def)
  from Cons.prems obtain n where n: "get_node_by_output g (enter_input_id val) = Some n"
    by (auto simp: enter_nodes_resolved_def declared_ta_name_def enter_node_name_def
             split: if_splits option.splits)
  show ?case
  proof (cases "is_tensor_array val")
    case True
    with Cons.prems n obtain a where a: "get_attr n ''tensor_array_name'' = Some a"
      by (auto simp: enter_nodes_resolved_def declared_ta_name_def split: option.splits)
    show ?thesis using True n a
      by (simp add: Cons.IH [OF rest] named_var_def mismatched_ta_def declared_ta_name_def)
  next
    case False
    then show ?thesis using n
      by (simp add: Cons.IH [OF rest] named_var_def mismatched_ta_def enter_node_name_def
            bindE_def set_time_var_def set_iteration_var_def)
  qed
qed

lemma record_vars_fields:
  "while_context_scope (record_vars g tn itn vals ctx) = while_context_scope ctx"
  "loop_properties (record_vars g tn itn vals ctx) = loop_properties ctx"
  "rnn_scope (record_vars g tn itn vals ctx) = rnn_scope ctx"
  by (induction vals arbitrary: ctx; simp)+

lemma record_vars_time:
  "list_ex (named_var g tn) vals \<Longrightarrow>
     \<exists>v\<in>set vals. named_var g tn v \<and> time_var (record_vars g tn itn vals ctx) = Some v"
proof (induction vals arbitrary: ctx)
  case Nil
  then show ?case by simp
next
  case (Cons v vs)
  show ?case
  proof (cases "list_ex (named_var g tn) vs")
    case True
    from Cons.IH [OF True] show ?thesis by auto
  next
    case False
    with Cons.prems have v: "named_var g tn v" by simp
    have keep: "\<And>c. time_var (record_vars g tn itn vs c) = time_var c"
      using False by (induction vs) (auto simp: list_ex_iff)
    show ?thesis using v by (simp add: keep)
  qed
qed

lemma record_vars_iteration:
  "list_ex (\<lambda>v. named_var g itn v \<and> \<not> named_var g tn v) vals \<Longrightarrow>
     \<exists>v\<in>set vals. named_var g itn v \<and> iteration_var (record_vars g tn itn vals ctx) = Some v"
proof (induction vals arbitrary: ctx)
  case Nil
  then show ?case by simp
next
  case (Cons v vs)
  show ?case
  proof (cases "list_ex (\<lambda>v. named_var g itn v \<and> \<not> named_var g tn v) vs")
    case True
    from Cons.IH [OF True] show ?thesis by auto
  next
    case False
    with Cons.prems have v: "named_var g itn v" "\<not> named_var g tn v" by simp_all
    have keep: "\<And>c. iteration_var (record_vars g tn itn vs c) = iteration_var c"
      using False by (induction vs) (auto simp: list_ex_iff)
    show ?thesis using v by (simp add: keep)
  qed
qed

lemma record_vars_no_iteration:
  "\<not> list_ex (named_var g itn) vals \<Longrightarrow>
     iteration_var (record_vars g tn itn vals ctx) = iteration_var ctx"
  by (induction vals arbitrary: ctx) auto

text \<open>The result of need_rewrite on a loop whose enter inputs all resolve.\<close>

lemma need_rewrite_resolved:
  assumes "enter_nodes_resolved g (loop_variables ctx)"
  shows "need_rewrite g ctx =
     (Inr (list_ex (named_var g (get_rnn_scope_name (while_context_scope ctx) @ ''time''))
             (loop_variables ctx)
           \<and> \<not> list_ex (mismatched_ta g
                 (get_rnn_scope_name (while_context_scope ctx) @ ''dynamic_rnn/output_''))
               (loop_variables ctx)
           \<and> tensor_array_inputs (loop_properties ctx) \<noteq> []),
      record_vars g (get_rnn_scope_name (while_context_scope ctx) @ ''time'')
        (while_context_scope ctx @ ''iteration_counter'') (loop_variables ctx)
        (ctx\<lparr>rnn_scope := Some (get_rnn_scope_name (while_context_scope ctx))\<rparr>))"
proof -
  let ?tn = "get_rnn_scope_name (while_context_scope ctx) @ ''time''"
  let ?c = "ctx\<lparr>rnn_scope := Some (get_rnn_scope_name (while_context_scope ctx))\<rparr>"
  have tv: "list_ex (named_var g ?tn) (loop_variables ctx) \<Longrightarrow>
      time_var (record_vars g ?tn (while_context_scope ctx @ ''iteration_counter'')
        (loop_variables ctx) ?c) \<noteq> None"
    using record_vars_time [of g ?tn "loop_variables ctx"] by fastforce
  show ?thesis
    using assms tv
    by (auto simp add: need_rewrite_def parse_rnn_loop_def parse_time_var_def bindE_def return_def
          raise_def parse_variables_resolved loop_variables_def [symmetric] record_vars_fields Let_def
          split: option.splits)
qed

lemma rnn_scope_example: "get_rnn_scope_name ''rnn/while/'' = ''rnn/''"
  by (simp add: get_rnn_scope_name_def drop_last2_def)

lemma time_name_not_iteration_counter: "s @ ''time'' \<noteq> w @ ''iteration_counter''"
proof
  assume "s @ ''time'' = w @ ''iteration_counter''"
  then have "last (s @ ''time'') = last (w @ ''iteration_counter'')" by simp
  then show False by simp
qed

subsection \<open>The exit nodes and the synthesized scan\<close>

lemma find_filter_Some:
  "find P xs = Some n \<Longrightarrow> Q n \<Longrightarrow> find P (filter Q xs) = Some n"
  by (induction xs) (auto split: if_splits)

lemma remove_node_lookup:
  assumes "get_node_by_output g i = Some n" and "node_name n \<noteq> name"
  shows "get_node_by_output (snd (remove_node name g)) i = Some n"
  using assms by (simp add: get_node_by_output_def remove_node_def find_filter_Some)

lemma remove_node_absent:
  "node_name n = name \<Longrightarrow> n \<notin> set (nodes (snd (remove_node name g)))"
  by (simp add: remove_node_def)

lemma remove_node_subset: "set (nodes (snd (remove_node name g))) \<subseteq> set (nodes g)"
  by (auto simp: remove_node_def)

lemma collect_exits_Cons:
  "collect_exits (e # es) g = (r, g') \<Longrightarrow>
     g' = g
     \<or> (\<exists>n r0. collect_exits es (snd (remove_node (node_name n) g)) = (r0, g'))
     \<or> (\<exists>r0. collect_exits es g = (r0, g'))"
  by (auto simp: bindE_def return_def raise_def remove_node_def exit_step_def
      split: option.splits if_splits prod.splits sum.splits)

lemma collect_exits_Cons_Inr:
  "collect_exits (e # es) g = (Inr r, g') \<Longrightarrow>
     (\<exists>i n r0. ti_id e = Some i \<and> i \<noteq> [] \<and> get_node_by_output g i = Some n
           \<and> collect_exits es (snd (remove_node (node_name n) g)) = (Inr r0, g'))
     \<or> ((ti_id e = None \<or> ti_id e = Some []) \<and> (\<exists>r0. collect_exits es g = (Inr r0, g')))"
  by (auto simp: bindE_def return_def raise_def remove_node_def exit_step_def
      split: option.splits if_splits prod.splits sum.splits)

lemma collect_exits_subset:
  "collect_exits es g = (r, g') \<Longrightarrow> set (nodes g') \<subseteq> set (nodes g)"
proof (induction es arbitrary: g r g')
  case Nil
  then show ?case by (simp add: return_def)
next
  case (Cons e es)
  from collect_exits_Cons [OF Cons.prems]
  consider "g' = g"
    | n r0 where "collect_exits es (snd (remove_node (node_name n) g)) = (r0, g')"
    | r0 where "collect_exits es g = (r0, g')"
    by blast
  then show ?case
  proof cases
    case 1
    then show ?thesis by simp
  next
    case 2
    from Cons.IH [OF 2] remove_node_subset [of "node_name n" g] show ?thesis by blast
  next
    case 3
    from Cons.IH [OF 3] show ?thesis .
  qed
qed

lemma collect_exits_removed:
  "collect_exits es g = (Inr r, g') \<Longrightarrow> e \<in> set es \<Longrightarrow> ti_id e = Some i \<Longrightarrow> i \<noteq> [] \<Longrightarrow>
     get_node_by_output g i = Some n \<Longrightarrow> n \<notin> set (nodes g')"
proof (induction es arbitrary: g r)
  case Nil
  then show ?case by simp
next
  case (Cons a es)
  from collect_exits_Cons_Inr [OF Cons.prems(1)]
  consider
    (removed) j m r0 where "ti_id a = Some j" "j \<noteq> []" "get_node_by_output g j = Some m"
      "collect_exits es (snd (remove_node (node_name m) g)) = (Inr r0, g')"
  | (skipped) r0 where "ti_id a = None \<or> ti_id a = Some []" "collect_exits es g = (Inr r0, g')"
    by blast
  then show ?case
  proof cases
    case removed
    let ?g1 = "snd (remove_node (node_name m) g)"
    show ?thesis
    proof (cases "node_name n = node_name m")
      case True
      then have "n \<notin> set (nodes ?g1)" by (simp add: remove_node_absent)
      with collect_exits_subset [OF removed(4)] show ?thesis by blast
    next
      case False
      then have look: "get_node_by_output ?g1 i = Some n"
        using Cons.prems(5) by (simp add: remove_node_lookup)
      have "e \<noteq> a"
      proof
        assume "e = a"
        with Cons.prems(3) removed(1,3) Cons.prems(5) have "m = n" by simp
        with False show False by simp
      qed
      with Cons.prems(2) have "e \<in> set es" by simp
      from Cons.IH [OF removed(4) this Cons.prems(3,4) look] show ?thesis .
    qed
  next
    case skipped
    with Cons.prems(3,4) have "e \<noteq> a" by auto
    with Cons.prems(2) have "e \<in> set es" by simp
    from Cons.IH [OF skipped(2) this Cons.prems(3,4,5)] show ?thesis .
  qed
qed

lemma make_node_fault_nodes:
  "make_node op ins at k sh dt sc g = (Inl err, g') \<Longrightarrow> nodes g' = nodes g"
  by (auto simp: make_node_def make_name_def bindE_def raise_def Let_def split: if_splits)

lemma bindE_assoc: "bindE (bindE m f) h = bindE m (\<lambda>x. bindE (f x) h)"
  by (rule ext) (simp add: bindE_def split: prod.splits sum.splits)

lemma bindE_return: "bindE (return x) f = f x"
  by (rule ext) (simp add: bindE_def return_def)

lemma collect_exits_append:
  "collect_exits (pre @ rest) =
     bindE (collect_exits pre) (\<lambda>(s1, d1).
       bindE (collect_exits rest) (\<lambda>(s2, d2). return (s1 @ s2, d1 @ d2)))"
proof (induction pre)
  case Nil
  have "bindE (collect_exits rest) (\<lambda>(s2, d2). return (s2, d2)) = collect_exits rest"
    by (rule ext) (simp add: bindE_def return_def split: prod.splits sum.splits)
  then show ?case by (simp add: bindE_return)
next
  case (Cons e pre)
  show ?case
    by (simp add: Cons.IH bindE_assoc bindE_return split_def)
qed

lemma bindE_Inr:
  "bindE m f s = (Inr r, s') \<Longrightarrow> \<exists>x s1. m s = (Inr x, s1) \<and> f x s1 = (Inr r, s')"
  by (auto simp: bindE_def split: prod.splits sum.splits)

lemma rewrite_try_value:
  "rewrite_try ctx g = (Inr r, g') \<Longrightarrow> r = OK"
  unfolding rewrite_try_def Let_def
  by (auto simp: truthy_node_def return_def raise_def dest!: bindE_Inr split: option.splits)

lemma find_append_Some: "find P xs = Some n \<Longrightarrow> find P (xs @ ys) = Some n"
  by (induction xs) auto

lemma output_ids_Suc2: "output_ids name (Suc (Suc 0)) = [name @ '':0'', name @ '':1'']"
  by (simp add: output_ids_def show_nat_0 show_nat_1)

lemma adapt_initial_values_single:
  assumes "output_shapes g x = Some s"
  shows "\<exists>v g' extra. adapt_initial_values [x] g = (Inr [v], g')
           \<and> nodes g' = nodes g @ extra
           \<and> (\<forall>y. output_shapes g y \<noteq> None \<longrightarrow> output_shapes g' y \<noteq> None)"
  using assms by (cases "count_list s (- 1) \<le> 1") (simp_all add: adapt_simps)

lemma adapt_output_known:
  assumes "output_shapes g x = Some s" and "t \<noteq> []"
  shows "\<exists>ns g' extra. adapt_scan_sequence_input_or_output t x True g = (Inr ns, g')
           \<and> ns \<noteq> [] \<and> node_output (last ns) \<noteq> []
           \<and> nodes g' = nodes g @ extra
           \<and> (\<forall>y. \<not> startswith y t \<longrightarrow> output_shapes g' y = output_shapes g y)"
  using assms
  by (cases "count_list (drop 1 s) (- 1) \<le> 1")
     (auto simp add: adapt_simps startswith_def scoped_name_def)

lemma connect_exits_single:
  assumes "ti_id e = Some i" and "i \<noteq> []" and "idx < length (node_output scan)"
    and "output_shapes g (node_output scan ! idx) = Some s" and "t \<noteq> []"
  shows "\<exists>g' extra new. connect_exits t scan [e] idx g = (Inr (Suc idx), g')
           \<and> nodes g' = map (replace_input i new) (nodes g @ extra)
           \<and> (\<forall>y. \<not> startswith y t \<longrightarrow> output_shapes g' y = output_shapes g y)"
proof -
  from adapt_output_known [OF assms(4,5)] obtain ns g1 extra where
    a: "adapt_scan_sequence_input_or_output t (node_output scan ! idx) True g = (Inr ns, g1)"
    and ne: "ns \<noteq> []" "node_output (last ns) \<noteq> []"
    and n: "nodes g1 = nodes g @ extra"
    and k: "\<forall>y. \<not> startswith y t \<longrightarrow> output_shapes g1 y = output_shapes g y"
    by blast
  let ?new = "node_output (last ns) ! 0"
  let ?g' = "g1\<lparr>nodes := map (replace_input i ?new) (nodes g1)\<rparr>"
  have run: "connect_exits t scan [e] idx g = (Inr (Suc idx), ?g')"
    using assms(1,2,3) a ne by (simp add: op_defs replace_all_inputs_def)
  have "nodes ?g' = map (replace_input i ?new) (nodes g @ extra)"
    using n by simp
  moreover have "\<forall>y. \<not> startswith y t \<longrightarrow> output_shapes ?g' y = output_shapes g y"
    using k by simp
  ultimately show ?thesis using run by blast
qed

lemma collect_exits_pair:
  assumes "ti_id se = Some sid" and "sid \<noteq> []" and "ti_shape se = Some ssh"
    and "ti_id xe = Some xid" and "xid \<noteq> []" and "ti_shape xe = Some xsh"
    and "get_node_by_output g sid = Some ns" and "get_node_by_output g xid = Some nx"
    and "node_name ns \<noteq> node_name nx"
  shows "collect_exits [se, xe] g =
     (Inr ([Some (1 # ssh), Some (1 # xsh)], [ti_dtype se, ti_dtype xe]),
      g\<lparr>nodes := filter (\<lambda>n. node_name n \<noteq> node_name nx)
                   (filter (\<lambda>n. node_name n \<noteq> node_name ns) (nodes g))\<rparr>)"
proof -
  have "get_node_by_output (snd (remove_node (node_name ns) g)) xid = Some nx"
    using assms(8,9) by (simp add: remove_node_lookup)
  then show ?thesis
    using assms(1-7)
    by (simp add: exit_step_def bindE_def return_def remove_node_def)
qed

lemma make_node_scan:
  "\<exists>nm g'. make_node ''Scan'' ins attrs (Suc (Suc 0)) [a, b] [c, d] (Some ''custom_rnn_scan'') g
       = (Inr (Node nm ''Scan'' ins [nm @ '':0'', nm @ '':1''] attrs), g')
     \<and> nodes g' = nodes g @ [Node nm ''Scan'' ins [nm @ '':0'', nm @ '':1''] attrs]
     \<and> output_shapes g' (nm @ '':0'') = a \<and> output_shapes g' (nm @ '':1'') = b
     \<and> \<not> startswith (nm @ '':0'') ''state_output_reshape''
     \<and> \<not> startswith (nm @ '':1'') ''state_output_reshape''
     \<and> \<not> startswith (nm @ '':0'') ''scan_output_reshape''
     \<and> \<not> startswith (nm @ '':1'') ''scan_output_reshape''"
  by (simp add: make_node_def make_name_def op_defs Let_def output_ids_Suc2 scoped_name_def
        startswith_def)


lemma replace_input_fields:
  "node_name (replace_input a b n) = node_name n"
  "op_type (replace_input a b n) = op_type n"
  "node_output (replace_input a b n) = node_output n"
  "attr (replace_input a b n) = attr n"
  by (simp_all add: replace_input_def)

lemma add_graph_inputs_single:
  "add_graph_inputs [xi] (add_graph_inputs [si] (construct_graph_from_nodes ns outs))
     = \<lparr>bg_nodes = ns, bg_outputs = outs, bg_inputs = [si, xi]\<rparr>"
  by (simp add: add_graph_inputs_def add_graph_input_def construct_graph_from_nodes_def)


lemmas example_defs =
  rewrite_context_def float_tensor_def example_graph_def get_node_by_output_def exit_2_def exit_3_def

lemma rewrite_try_single_pair:
  assumes si: "state_inputs (loop_properties ctx) = [si]"
    and xi: "scan_inputs (loop_properties ctx) = [xi]"
    and so: "state_outputs (loop_properties ctx) = [so]"
    and xo: "scan_outputs (loop_properties ctx) = [xo]"
    and siv: "state_inputs_initial_values (loop_properties ctx) = [siv]"
    and xiv: "scan_inputs_initial_values (loop_properties ctx) = [xiv]"
    and se: "state_outputs_exits (loop_properties ctx) = [se]"
    and xe: "scan_outputs_exits (loop_properties ctx) = [xe]"
    and cg: "cell_graph ctx = Some cg"
    and siv_shape: "output_shapes g siv = Some [4]"
    and xiv_shape: "output_shapes g xiv = Some [T, 4]"
    and se_id: "ti_id se = Some sid" "sid \<noteq> []" and se_shape: "ti_shape se = Some [4]"
    and xe_id: "ti_id xe = Some xid" "xid \<noteq> []" and xe_shape: "ti_shape xe = Some [4]"
    and s_exit: "get_node_by_output g sid = Some ns"
    and x_exit: "get_node_by_output g xid = Some nx"
    and distinct_exits: "node_name ns \<noteq> node_name nx"
  shows "\<exists>gh scan. rewrite_try ctx g = (Inr OK, gh)
     \<and> scan \<in> set (nodes gh)
     \<and> op_type scan = ''Scan''
     \<and> get_attr scan ''num_scan_inputs'' = Some (AInt 1)
     \<and> length (node_output scan) = 2
     \<and> (\<forall>out\<in>set (node_output scan). output_shapes gh out = Some [1, 4])
     \<and> get_attr scan ''body'' = Some (AGraph (cg_nodes cg) (cg_outputs cg) [si, xi])"
proof -
  from adapt_initial_values_single [OF siv_shape] obtain sv ga ex1 where
    a1: "adapt_initial_values [siv] g = (Inr [sv], ga)"
    and n1: "nodes ga = nodes g @ ex1"
    and k1: "\<forall>y. output_shapes g y \<noteq> None \<longrightarrow> output_shapes ga y \<noteq> None"
    by blast
  from k1 xiv_shape obtain xs where "output_shapes ga xiv = Some xs"
    by auto
  from adapt_initial_values_single [OF this] obtain xv gb ex2 where
    a2: "adapt_initial_values [xiv] ga = (Inr [xv], gb)"
    and n2: "nodes gb = nodes ga @ ex2"
    by blast
  have ls: "get_node_by_output gb sid = Some ns"
    using s_exit n1 n2 by (simp add: get_node_by_output_def find_append_Some)
  have lx: "get_node_by_output gb xid = Some nx"
    using x_exit n1 n2 by (simp add: get_node_by_output_def find_append_Some)
  let ?gc = "gb\<lparr>nodes := filter (\<lambda>n. node_name n \<noteq> node_name nx)
                   (filter (\<lambda>n. node_name n \<noteq> node_name ns) (nodes gb))\<rparr>"
  have b: "collect_exits [se, xe] gb
      = (Inr ([Some [1, 4], Some [1, 4]], [ti_dtype se, ti_dtype xe]), ?gc)"
    using collect_exits_pair [OF se_id se_shape xe_id xe_shape ls lx distinct_exits] .
  let ?attrs = "[(''num_scan_inputs'', AInt 1)]"
  from make_node_scan [of "[[], sv, xv]" ?attrs "Some [1, 4]" "Some [1, 4]"
                          "ti_dtype se" "ti_dtype xe" ?gc]
  obtain nm gd where
    c: "make_node ''Scan'' [[], sv, xv] ?attrs (Suc (Suc 0)) [Some [1, 4], Some [1, 4]]
          [ti_dtype se, ti_dtype xe] (Some ''custom_rnn_scan'') ?gc
        = (Inr (Node nm ''Scan'' [[], sv, xv] [nm @ '':0'', nm @ '':1''] ?attrs), gd)"
    and nd: "nodes gd = nodes ?gc @ [Node nm ''Scan'' [[], sv, xv] [nm @ '':0'', nm @ '':1''] ?attrs]"
    and sh0: "output_shapes gd (nm @ '':0'') = Some [1, 4]"
    and sh1: "output_shapes gd (nm @ '':1'') = Some [1, 4]"
    and fresh: "\<not> startswith (nm @ '':0'') ''state_output_reshape''"
       "\<not> startswith (nm @ '':1'') ''state_output_reshape''"
       "\<not> startswith (nm @ '':0'') ''scan_output_reshape''"
       "\<not> startswith (nm @ '':1'') ''scan_output_reshape''"
    by blast
  let ?scan = "Node nm ''Scan'' [[], sv, xv] [nm @ '':0'', nm @ '':1''] ?attrs"
  have create: "create_scan_node ctx (loop_properties ctx) ([sv] @ [xv]) gb = (Inr ?scan, gd)"
    using b c by (simp add: create_scan_node_def bindE_def se xe so xo xi)
  let ?body = "\<lparr>bg_nodes = cg_nodes cg, bg_outputs = cg_outputs cg, bg_inputs = [si, xi]\<rparr>"
  let ?with_body = "\<lambda>m. if node_name m = nm
      then set_attr ''body'' (AGraph (cg_nodes cg) (cg_outputs cg) [si, xi]) m else m"
  let ?ge = "gd\<lparr>nodes := map ?with_body (nodes gd)\<rparr>"
  have attach: "set_body_graph_as_attr ?scan ''body'' ?body gd = (Inr (), ?ge)"
    by (simp add: set_body_graph_as_attr_def)
  let ?scan' = "set_attr ''body'' (AGraph (cg_nodes cg) (cg_outputs cg) [si, xi]) ?scan"
  have me: "?scan' \<in> set (nodes ?ge)"
    using nd by simp
  have "output_shapes ?ge (node_output ?scan ! 0) = Some [1, 4]"
    using sh0 by simp
  from connect_exits_single [OF se_id _ this, of "''state_output_reshape''"]
  obtain gf ex3 new3 where
    d1: "connect_exits ''state_output_reshape'' ?scan [se] 0 ?ge = (Inr (Suc 0), gf)"
    and nf: "nodes gf = map (replace_input sid new3) (nodes ?ge @ ex3)"
    and kf: "\<forall>y. \<not> startswith y ''state_output_reshape'' \<longrightarrow> output_shapes gf y = output_shapes ?ge y"
    by auto
  have shf: "output_shapes gf (nm @ '':0'') = Some [1, 4]" "output_shapes gf (nm @ '':1'') = Some [1, 4]"
    using kf fresh sh0 sh1 by simp_all
  then have "output_shapes gf (node_output ?scan ! Suc 0) = Some [1, 4]"
    by simp
  from connect_exits_single [OF xe_id _ this, of "''scan_output_reshape''"]
  obtain gh ex4 new4 where
    d2: "connect_exits ''scan_output_reshape'' ?scan [xe] (Suc 0) gf = (Inr (Suc (Suc 0)), gh)"
    and nh: "nodes gh = map (replace_input xid new4) (nodes gf @ ex4)"
    and kh: "\<forall>y. \<not> startswith y ''scan_output_reshape'' \<longrightarrow> output_shapes gh y = output_shapes gf y"
    by auto
  have shh: "output_shapes gh (nm @ '':0'') = Some [1, 4]" "output_shapes gh (nm @ '':1'') = Some [1, 4]"
    using kh fresh shf by simp_all
  let ?final = "replace_input xid new4 (replace_input sid new3 ?scan')"
  have mem_map: "\<And>f x xs ys. x \<in> set xs \<Longrightarrow> f x \<in> set (map f (xs @ ys))"
    by simp
  have "replace_input sid new3 ?scan' \<in> set (nodes gf)"
    unfolding nf by (rule mem_map [OF me])
  then have mem: "?final \<in> set (nodes gh)"
    unfolding nh by (rule mem_map)
  have connect: "connect_scan_with_output ctx ?scan ?ge = (Inr (), gh)"
    using d1 d2 by (simp add: connect_scan_with_output_def bindE_def return_def se xe)
  have run: "rewrite_try ctx g = (Inr OK, gh)"
    using a1 a2 create attach connect
    by (simp add: rewrite_try_def Let_def bindE_def return_def truthy_node_def
          siv xiv cg si xi add_graph_inputs_single)
  have props: "op_type ?final = ''Scan''"
    "get_attr ?final ''num_scan_inputs'' = Some (AInt 1)"
    "node_output ?final = [nm @ '':0'', nm @ '':1'']"
    "get_attr ?final ''body'' = Some (AGraph (cg_nodes cg) (cg_outputs cg) [si, xi])"
    by (simp_all add: replace_input_fields get_attr_def set_attr_def)
  have "\<forall>out\<in>set (node_output ?final). output_shapes gh out = Some [1, 4]"
    using props(3) shh by simp
  moreover have "length (node_output ?final) = 2"
    using props(3) by simp
  ultimately show ?thesis
    using run mem props(1,2,4) by blast
qed

lemma rewrite_context_run:
  "\<exists>gh. rewrite_try (rewrite_context ''rnn/init_state:0'' (Some [4])) example_graph = (Inr OK, gh)"
proof -
  let ?ctx = "rewrite_context ''rnn/init_state:0'' (Some [4])"
  have "\<exists>gh scan. rewrite_try ?ctx example_graph = (Inr OK, gh)
     \<and> scan \<in> set (nodes gh)
     \<and> op_type scan = ''Scan''
     \<and> get_attr scan ''num_scan_inputs'' = Some (AInt 1)
     \<and> length (node_output scan) = 2
     \<and> (\<forall>out\<in>set (node_output scan). output_shapes gh out = Some [1, 4])
     \<and> get_attr scan ''body''
              = Some (AGraph (cg_nodes (the (cell_graph ?ctx))) (cg_outputs (the (cell_graph ?ctx)))
                        [float_tensor ''rnn/while/Identity_2:0'' (Some [4]),
                         float_tensor ''rnn/while/TensorArrayReadV3:0'' (Some [4])])"
    by (rule rewrite_try_single_pair [where ctx = ?ctx and g = example_graph and T = "- 1"
          and si = "float_tensor ''rnn/while/Identity_2:0'' (Some [4])"
          and xi = "float_tensor ''rnn/while/TensorArrayReadV3:0'' (Some [4])"
          and so = "float_tensor ''rnn/while/NextIteration_2:0'' (Some [4])"
          and xo = "float_tensor ''rnn/while/NextIteration_3:0'' (Some [4])"
          and siv = "''rnn/init_state:0''" and xiv = "''rnn/seq:0''"
          and se = "float_tensor ''rnn/while/Exit_2:0'' (Some [4])"
          and xe = "float_tensor ''rnn/while/Exit_3:0'' (Some [4])"
          and cg = "the (cell_graph ?ctx)"
          and sid = "''rnn/while/Exit_2:0''" and xid = "''rnn/while/Exit_3:0''"
          and ns = exit_2 and nx = exit_3])
       (simp_all add: example_defs)
  then show ?thesis by blast
qed

lemma rewrite_context_fault:
  "fst (rewrite_try (rewrite_context ''unknown:0'' (Some [4])) example_graph) = Inl TypeError"
proof -
  have "output_shapes example_graph ''unknown:0'' = None"
    by (simp add: example_graph_def)
  from adapt_input_unknown [OF this, of "''input''"]
  obtain g' where "adapt_scan_sequence_input_or_output ''input'' ''unknown:0'' False example_graph
      = (Inl TypeError, g')"
    by (cases "adapt_scan_sequence_input_or_output ''input'' ''unknown:0'' False example_graph") simp
  then show ?thesis
    by (simp add: rewrite_try_def rewrite_context_def bindE_def Let_def)
qed

subsection \<open>The rewrite of a loop with its step counter\<close>

lemma output_ids_3:
  "output_ids name 3 = [name @ '':0'', name @ '':1'', name @ '':2'']"
  by (simp add: output_ids_def numeral_3_eq_3 show_nat_0 show_nat_1 show_nat_2)

lemma adapt_input_known:
  assumes "output_shapes g x = Some s"
  shows "\<exists>ns g' extra. adapt_scan_sequence_input_or_output t x False g = (Inr ns, g')
           \<and> ns \<noteq> [] \<and> node_output (last ns) \<noteq> []
           \<and> nodes g' = nodes g @ extra
           \<and> (\<forall>n\<in>set extra. op_type n \<noteq> ''Scan'')
           \<and> (\<forall>y. output_shapes g y \<noteq> None \<longrightarrow> output_shapes g' y \<noteq> None)"
  using assms by (cases "count_list s (- 1) \<le> 1") (simp_all add: adapt_simps)

lemma adapt_initial_values_known:
  assumes "\<forall>x\<in>set xs. output_shapes g x \<noteq> None"
  shows "\<exists>vs g' extra. adapt_initial_values xs g = (Inr vs, g')
           \<and> length vs = length xs
           \<and> nodes g' = nodes g @ extra
           \<and> (\<forall>n\<in>set extra. op_type n \<noteq> ''Scan'')
           \<and> (\<forall>y. output_shapes g y \<noteq> None \<longrightarrow> output_shapes g' y \<noteq> None)"
  using assms
proof (induction xs arbitrary: g)
  case Nil
  then show ?case by (simp add: return_def)
next
  case (Cons x xs)
  then obtain s where "output_shapes g x = Some s"
    by auto
  from adapt_input_known [OF this, of "''input''"] obtain ns g1 ex1 where
    a: "adapt_scan_sequence_input_or_output ''input'' x False g = (Inr ns, g1)"
    and ne: "ns \<noteq> []" "node_output (last ns) \<noteq> []"
    and n1: "nodes g1 = nodes g @ ex1"
    and t1: "\<forall>n\<in>set ex1. op_type n \<noteq> ''Scan''"
    and k1: "\<forall>y. output_shapes g y \<noteq> None \<longrightarrow> output_shapes g1 y \<noteq> None"
    by blast
  from Cons.prems k1 have "\<forall>x\<in>set xs. output_shapes g1 x \<noteq> None"
    by simp
  from Cons.IH [OF this] obtain vs g2 ex2 where
    b: "adapt_initial_values xs g1 = (Inr vs, g2)"
    and len: "length vs = length xs"
    and n2: "nodes g2 = nodes g1 @ ex2"
    and t2: "\<forall>n\<in>set ex2. op_type n \<noteq> ''Scan''"
    and k2: "\<forall>y. output_shapes g1 y \<noteq> None \<longrightarrow> output_shapes g2 y \<noteq> None"
    by blast
  have run: "adapt_initial_values (x # xs) g = (Inr (node_output (last ns) ! 0 # vs), g2)"
    using a b ne by (simp add: op_defs)
  have "length (node_output (last ns) ! 0 # vs) = length (x # xs)"
    using len by simp
  moreover have "nodes g2 = nodes g @ (ex1 @ ex2)"
    using n1 n2 by simp
  moreover have "\<forall>n\<in>set (ex1 @ ex2). op_type n \<noteq> ''Scan''"
    using t1 t2 by auto
  moreover have "\<forall>y. output_shapes g y \<noteq> None \<longrightarrow> output_shapes g2 y \<noteq> None"
    using k1 k2 by blast
  ultimately show ?case using run by blast
qed

lemma adapt_output_typed:
  assumes "output_shapes g x = Some s" and "t \<noteq> []"
  shows "\<exists>ns g' extra. adapt_scan_sequence_input_or_output t x True g = (Inr ns, g')
           \<and> ns \<noteq> [] \<and> node_output (last ns) \<noteq> []
           \<and> nodes g' = nodes g @ extra
           \<and> (\<forall>n\<in>set extra. op_type n \<noteq> ''Scan'')
           \<and> (\<forall>y. \<not> startswith y t \<longrightarrow> output_shapes g' y = output_shapes g y)"
  using assms
  by (cases "count_list (drop 1 s) (- 1) \<le> 1")
     (auto simp add: adapt_simps startswith_def scoped_name_def)

lemma connect_exits_step:
  assumes "ti_id e = Some i" and "i \<noteq> []" and "idx < length (node_output scan)"
    and "output_shapes g (node_output scan ! idx) = Some s" and "t \<noteq> []"
  shows "\<exists>g' extra new. connect_exits t scan [e] idx g = (Inr (Suc idx), g')
           \<and> nodes g' = map (replace_input i new) (nodes g @ extra)
           \<and> (\<forall>n\<in>set extra. op_type n \<noteq> ''Scan'')
           \<and> (\<forall>y. \<not> startswith y t \<longrightarrow> output_shapes g' y = output_shapes g y)"
proof -
  from adapt_output_typed [OF assms(4,5)] obtain ns g1 extra where
    a: "adapt_scan_sequence_input_or_output t (node_output scan ! idx) True g = (Inr ns, g1)"
    and ne: "ns \<noteq> []" "node_output (last ns) \<noteq> []"
    and n: "nodes g1 = nodes g @ extra"
    and ty: "\<forall>n\<in>set extra. op_type n \<noteq> ''Scan''"
    and k: "\<forall>y. \<not> startswith y t \<longrightarrow> output_shapes g1 y = output_shapes g y"
    by blast
  let ?new = "node_output (last ns) ! 0"
  let ?g' = "g1\<lparr>nodes := map (replace_input i ?new) (nodes g1)\<rparr>"
  have run: "connect_exits t scan [e] idx g = (Inr (Suc idx), ?g')"
    using assms(1,2,3) a ne by (simp add: op_defs replace_all_inputs_def)
  have "nodes ?g' = map (replace_input i ?new) (nodes g @ extra)"
    using n by simp
  moreover have "\<forall>y. \<not> startswith y t \<longrightarrow> output_shapes ?g' y = output_shapes g y"
    using k by simp
  ultimately show ?thesis using run ty by blast
qed

lemma connect_exits_skip:
  "\<not> truthy_id (ti_id e) \<Longrightarrow>
     connect_exits t scan (e # rest) idx = connect_exits t scan rest (idx + 1)"
  by (cases "ti_id e") (simp_all add: bindE_return)

lemma collect_exits_skip:
  assumes "\<not> truthy_id (ti_id e)" and "collect_exits es g = (Inr (shapes, dts), g')"
  shows "collect_exits (e # es) g = (Inr (None # shapes, None # dts), g')"
  using assms by (cases "ti_id e") (simp_all add: exit_step_def bindE_def return_def)

lemma make_node_scan3:
  "\<exists>nm g'. make_node ''Scan'' ins attrs 3 [a, b, c] [d, e, f] (Some ''custom_rnn_scan'') g
       = (Inr (Node nm ''Scan'' ins [nm @ '':0'', nm @ '':1'', nm @ '':2''] attrs), g')
     \<and> nodes g' = nodes g @ [Node nm ''Scan'' ins [nm @ '':0'', nm @ '':1'', nm @ '':2''] attrs]
     \<and> output_shapes g' (nm @ '':0'') = a \<and> output_shapes g' (nm @ '':1'') = b
     \<and> output_shapes g' (nm @ '':2'') = c
     \<and> (\<forall>k. \<not> startswith (nm @ k) ''state_output_reshape''
            \<and> \<not> startswith (nm @ k) ''scan_output_reshape'')"
  by (simp add: make_node_def make_name_def op_defs Let_def output_ids_3 scoped_name_def
        startswith_def)

lemma add_graph_inputs_counter:
  "add_graph_inputs [xi] (add_graph_inputs [ti, si] (construct_graph_from_nodes ns outs))
     = \<lparr>bg_nodes = ns, bg_outputs = outs, bg_inputs = [ti, si, xi]\<rparr>"
  by (simp add: add_graph_inputs_def add_graph_input_def construct_graph_from_nodes_def)


lemma rewrite_try_counter_state_pair:
  assumes si: "state_inputs (loop_properties ctx) = [ti, si]"
    and xi: "scan_inputs (loop_properties ctx) = [xi]"
    and so: "length (state_outputs (loop_properties ctx)) = 2"
    and xo: "length (scan_outputs (loop_properties ctx)) = 1"
    and siv: "state_inputs_initial_values (loop_properties ctx) = [tiv, siv]"
    and xiv: "scan_inputs_initial_values (loop_properties ctx) = [xiv]"
    and se: "state_outputs_exits (loop_properties ctx) = [te, se]"
    and xe: "scan_outputs_exits (loop_properties ctx) = [xe]"
    and cg: "cell_graph ctx = Some cg"
    and tiv_shape: "output_shapes g tiv = Some ts"
    and siv_shape: "output_shapes g siv = Some [4]"
    and xiv_shape: "output_shapes g xiv = Some [T, 4]"
    and te_id: "\<not> truthy_id (ti_id te)"
    and se_id: "ti_id se = Some sid" "sid \<noteq> []" and se_shape: "ti_shape se = Some [4]"
    and xe_id: "ti_id xe = Some xid" "xid \<noteq> []" and xe_shape: "ti_shape xe = Some [4]"
    and s_exit: "get_node_by_output g sid = Some ns"
    and x_exit: "get_node_by_output g xid = Some nx"
    and distinct_exits: "node_name ns \<noteq> node_name nx"
  shows "\<exists>gh scan o0 o1 o2. rewrite_try ctx g = (Inr OK, gh)
     \<and> scan \<in> set (nodes gh)
     \<and> op_type scan = ''Scan''
     \<and> get_attr scan ''num_scan_inputs'' = Some (AInt 1)
     \<and> node_output scan = [o0, o1, o2]
     \<and> output_shapes gh o0 = None
     \<and> output_shapes gh o1 = Some [1, 4]
     \<and> output_shapes gh o2 = Some [1, 4]
     \<and> get_attr scan ''body'' = Some (AGraph (cg_nodes cg) (cg_outputs cg) [ti, si, xi])
     \<and> (\<forall>n\<in>set (nodes gh). op_type n = ''Scan'' \<longrightarrow>
            n = scan \<or> (\<exists>m\<in>set (nodes g). op_type m = ''Scan''))"
proof -
  have "\<forall>x\<in>set [tiv, siv]. output_shapes g x \<noteq> None"
    using tiv_shape siv_shape by simp
  from adapt_initial_values_known [OF this] obtain svs ga ex1 where
    a1: "adapt_initial_values [tiv, siv] g = (Inr svs, ga)"
    and l1: "length svs = length [tiv, siv]"
    and n1: "nodes ga = nodes g @ ex1"
    and t1: "\<forall>n\<in>set ex1. op_type n \<noteq> ''Scan''"
    and k1: "\<forall>y. output_shapes g y \<noteq> None \<longrightarrow> output_shapes ga y \<noteq> None"
    by blast
  from l1 obtain tv sv where svs: "svs = [tv, sv]"
    by (cases svs; cases "tl svs") auto
  from k1 xiv_shape have "\<forall>x\<in>set [xiv]. output_shapes ga x \<noteq> None"
    by simp
  from adapt_initial_values_known [OF this] obtain xvs gb ex2 where
    a2: "adapt_initial_values [xiv] ga = (Inr xvs, gb)"
    and l2: "length xvs = length [xiv]"
    and n2: "nodes gb = nodes ga @ ex2"
    and t2: "\<forall>n\<in>set ex2. op_type n \<noteq> ''Scan''"
    by blast
  from l2 obtain xv where xvs: "xvs = [xv]"
    by (cases xvs) auto
  have ls: "get_node_by_output gb sid = Some ns"
    using s_exit n1 n2 by (simp add: get_node_by_output_def find_append_Some)
  have lx: "get_node_by_output gb xid = Some nx"
    using x_exit n1 n2 by (simp add: get_node_by_output_def find_append_Some)
  let ?gc = "gb\<lparr>nodes := filter (\<lambda>n. node_name n \<noteq> node_name nx)
                   (filter (\<lambda>n. node_name n \<noteq> node_name ns) (nodes gb))\<rparr>"
  let ?old = "\<exists>m\<in>set (nodes g). op_type m = ''Scan''"
  have uc: "\<forall>n\<in>set (nodes ?gc). op_type n = ''Scan'' \<longrightarrow> ?old"
    using n1 n2 t1 t2 by auto
  have "collect_exits [se, xe] gb
      = (Inr ([Some [1, 4], Some [1, 4]], [ti_dtype se, ti_dtype xe]), ?gc)"
    using collect_exits_pair [OF se_id se_shape xe_id xe_shape ls lx distinct_exits] .
  from collect_exits_skip [OF te_id this]
  have b: "collect_exits [te, se, xe] gb
      = (Inr ([None, Some [1, 4], Some [1, 4]], [None, ti_dtype se, ti_dtype xe]), ?gc)" .
  let ?attrs = "[(''num_scan_inputs'', AInt 1)]"
  from make_node_scan3 [of "[[], tv, sv, xv]" ?attrs None "Some [1, 4]" "Some [1, 4]"
                          None "ti_dtype se" "ti_dtype xe" ?gc]
  obtain nm gd where
    c: "make_node ''Scan'' [[], tv, sv, xv] ?attrs 3 [None, Some [1, 4], Some [1, 4]]
          [None, ti_dtype se, ti_dtype xe] (Some ''custom_rnn_scan'') ?gc
        = (Inr (Node nm ''Scan'' [[], tv, sv, xv] [nm @ '':0'', nm @ '':1'', nm @ '':2''] ?attrs),
           gd)"
    and nd: "nodes gd = nodes ?gc
        @ [Node nm ''Scan'' [[], tv, sv, xv] [nm @ '':0'', nm @ '':1'', nm @ '':2''] ?attrs]"
    and sh0: "output_shapes gd (nm @ '':0'') = None"
    and sh1: "output_shapes gd (nm @ '':1'') = Some [1, 4]"
    and sh2: "output_shapes gd (nm @ '':2'') = Some [1, 4]"
    and fresh: "\<forall>k. \<not> startswith (nm @ k) ''state_output_reshape''
                    \<and> \<not> startswith (nm @ k) ''scan_output_reshape''"
    by blast
  let ?scan = "Node nm ''Scan'' [[], tv, sv, xv] [nm @ '':0'', nm @ '':1'', nm @ '':2''] ?attrs"
  have create: "create_scan_node ctx (loop_properties ctx) (svs @ xvs) gb = (Inr ?scan, gd)"
    using b c by (simp add: create_scan_node_def bindE_def se xe so xo xi svs xvs)
  let ?body = "\<lparr>bg_nodes = cg_nodes cg, bg_outputs = cg_outputs cg, bg_inputs = [ti, si, xi]\<rparr>"
  let ?with_body = "\<lambda>m. if node_name m = nm
      then set_attr ''body'' (AGraph (cg_nodes cg) (cg_outputs cg) [ti, si, xi]) m else m"
  let ?ge = "gd\<lparr>nodes := map ?with_body (nodes gd)\<rparr>"
  have attach: "set_body_graph_as_attr ?scan ''body'' ?body gd = (Inr (), ?ge)"
    by (simp add: set_body_graph_as_attr_def)
  let ?scan' = "set_attr ''body'' (AGraph (cg_nodes cg) (cg_outputs cg) [ti, si, xi]) ?scan"
  have me: "?scan' \<in> set (nodes ?ge)"
    using nd by simp
  have ue: "\<forall>n\<in>set (nodes ?ge). op_type n = ''Scan'' \<longrightarrow> n = ?scan' \<or> ?old"
  proof (intro ballI impI)
    fix n
    assume "n \<in> set (nodes ?ge)" and ty: "op_type n = ''Scan''"
    then obtain m where m: "m \<in> set (nodes gd)" and n: "n = ?with_body m"
      by auto
    from n ty have tm: "op_type m = ''Scan''"
      by (simp add: set_attr_def split: if_splits)
    from m nd consider "m = ?scan" | "m \<in> set (nodes ?gc)"
      by auto
    then show "n = ?scan' \<or> ?old"
    proof cases
      case 1
      with n show ?thesis by simp
    next
      case 2
      with uc tm show ?thesis by blast
    qed
  qed
  have skip: "connect_exits ''state_output_reshape'' ?scan [te, se] 0
      = connect_exits ''state_output_reshape'' ?scan [se] (Suc 0)"
    using connect_exits_skip [OF te_id, of "''state_output_reshape''" ?scan "[se]" 0]
    by (simp del: connect_exits.simps)
  have "output_shapes ?ge (node_output ?scan ! Suc 0) = Some [1, 4]"
    using sh1 by simp
  from connect_exits_step [OF se_id _ this, of "''state_output_reshape''"]
  obtain gf ex3 new3 where
    d1: "connect_exits ''state_output_reshape'' ?scan [se] (Suc 0) ?ge = (Inr (Suc (Suc 0)), gf)"
    and nf: "nodes gf = map (replace_input sid new3) (nodes ?ge @ ex3)"
    and t3: "\<forall>n\<in>set ex3. op_type n \<noteq> ''Scan''"
    and kf: "\<forall>y. \<not> startswith y ''state_output_reshape'' \<longrightarrow> output_shapes gf y = output_shapes ?ge y"
    by auto
  have shf: "output_shapes gf (nm @ '':0'') = None" "output_shapes gf (nm @ '':1'') = Some [1, 4]"
    "output_shapes gf (nm @ '':2'') = Some [1, 4]"
    using kf fresh sh0 sh1 sh2 by simp_all
  then have "output_shapes gf (node_output ?scan ! Suc (Suc 0)) = Some [1, 4]"
    by simp
  from connect_exits_step [OF xe_id _ this, of "''scan_output_reshape''"]
  obtain gh ex4 new4 where
    d2: "connect_exits ''scan_output_reshape'' ?scan [xe] (Suc (Suc 0)) gf
           = (Inr (Suc (Suc (Suc 0))), gh)"
    and nh: "nodes gh = map (replace_input xid new4) (nodes gf @ ex4)"
    and t4: "\<forall>n\<in>set ex4. op_type n \<noteq> ''Scan''"
    and kh: "\<forall>y. \<not> startswith y ''scan_output_reshape'' \<longrightarrow> output_shapes gh y = output_shapes gf y"
    by auto
  have shh: "output_shapes gh (nm @ '':0'') = None" "output_shapes gh (nm @ '':1'') = Some [1, 4]"
    "output_shapes gh (nm @ '':2'') = Some [1, 4]"
    using kh fresh shf by simp_all
  let ?mid = "replace_input sid new3 ?scan'"
  let ?final = "replace_input xid new4 ?mid"
  have mem_map: "\<And>f x xs ys. x \<in> set xs \<Longrightarrow> f x \<in> set (map f (xs @ ys))"
    by simp
  have "?mid \<in> set (nodes gf)"
    unfolding nf by (rule mem_map [OF me])
  then have mem: "?final \<in> set (nodes gh)"
    unfolding nh by (rule mem_map)
  have step: "\<And>i new xs ex s. \<forall>n\<in>set xs. op_type n = ''Scan'' \<longrightarrow> n = s \<or> ?old \<Longrightarrow>
      \<forall>n\<in>set ex. op_type n \<noteq> ''Scan'' \<Longrightarrow>
      \<forall>n\<in>set (map (replace_input i new) (xs @ ex)). op_type n = ''Scan'' \<longrightarrow>
         n = replace_input i new s \<or> ?old"
    by (auto simp add: replace_input_fields)
  have uf: "\<forall>n\<in>set (nodes gf). op_type n = ''Scan'' \<longrightarrow> n = ?mid \<or> ?old"
    unfolding nf by (rule step [OF ue t3])
  have uh: "\<forall>n\<in>set (nodes gh). op_type n = ''Scan'' \<longrightarrow> n = ?final \<or> ?old"
    unfolding nh by (rule step [OF uf t4])
  have connect: "connect_scan_with_output ctx ?scan ?ge = (Inr (), gh)"
    using d1 d2
    by (simp add: connect_scan_with_output_def bindE_def return_def se xe skip
          del: connect_exits.simps)
  have run: "rewrite_try ctx g = (Inr OK, gh)"
    using a1 a2 create attach connect
    by (simp add: rewrite_try_def Let_def bindE_def return_def truthy_node_def
          siv xiv cg si xi add_graph_inputs_counter)
  have props: "op_type ?final = ''Scan''"
    "get_attr ?final ''num_scan_inputs'' = Some (AInt 1)"
    "node_output ?final = [nm @ '':0'', nm @ '':1'', nm @ '':2'']"
    "get_attr ?final ''body'' = Some (AGraph (cg_nodes cg) (cg_outputs cg) [ti, si, xi])"
    by (simp_all add: replace_input_fields get_attr_def set_attr_def)
  from run mem props shh uh show ?thesis
    by blast
qed


lemma record_vars_cell_graph:
  "cell_graph (record_vars g tn itn vals ctx) = cell_graph ctx"
  by (induction vals arbitrary: ctx) simp_all

lemma need_rewrite_keeps:
  assumes "enter_nodes_resolved g (loop_variables ctx)"
  shows "loop_properties (snd (need_rewrite g ctx)) = loop_properties ctx"
    and "cell_graph (snd (need_rewrite g ctx)) = cell_graph ctx"
  using assms by (simp_all add: need_rewrite_resolved record_vars_fields record_vars_cell_graph)

lemma filter_singleton_all:
  assumes "filter P xs = [a]" and "x \<in> set xs" and "P x"
  shows "x = a"
proof -
  from assms(2,3) have "x \<in> set (filter P xs)" by simp
  then show ?thesis by (simp add: assms(1))
qed

lemmas counter_defs =
  counter_context_def counter_graph_def counter_variable_def state_variable_def
  accumulator_variable_def example_graph_def float_tensor_def loop_variables_def
  get_node_by_output_def exit_2_def exit_3_def

lemma counter_context_resolved:
  "enter_nodes_resolved counter_graph (loop_variables counter_context)"
  by (simp add: enter_nodes_resolved_def declared_ta_name_def enter_node_name_def get_attr_def
        counter_defs)

lemma counter_context_accepted:
  "fst (need_rewrite counter_graph counter_context) = Inr True"
  by (simp add: need_rewrite_resolved [OF counter_context_resolved])
     (simp add: named_var_def mismatched_ta_def declared_ta_name_def enter_node_name_def
        get_attr_def startswith_def rnn_scope_example counter_defs)

section \<open>The shape adapter: claims\<close>



text \<open>
  C6.  In the output direction, when the known shape of the tensor without its leading
  axis has two or more unresolved dimensions, the adapter builds the dynamic chain: a
  Shape node, a Cast to float, a Slice that drops the first entry, a Cast to int64, and a
  Reshape whose shape input is the output of that last Cast; no constant shape is made.
\<close>

theorem adapt_output_dynamic_path:
  assumes "output_shapes g input_id = Some s" and "2 \<le> count_list (drop 1 s) (- 1)"
  shows "\<exists>shape_node cast1 slice cast2 reshape g'.
     adapt_scan_sequence_input_or_output target_name input_id True g
        = (Inr [shape_node, cast1, slice, cast2, reshape], g')
     \<and> nodes g' = nodes g @ [shape_node, cast1, slice, cast2, reshape]
     \<and> op_type shape_node = ''Shape'' \<and> node_input shape_node = [input_id]
     \<and> op_type cast1 = ''Cast'' \<and> node_input cast1 = node_output shape_node
     \<and> attr cast1 = [(''to'', ADtype FLOAT)]
     \<and> op_type slice = ''Slice'' \<and> node_input slice = node_output cast1
     \<and> attr slice = [(''axes'', AInts [0]), (''starts'', AInts [1]), (''ends'', AInts [sys_maxsize])]
     \<and> op_type cast2 = ''Cast'' \<and> node_input cast2 = node_output slice
     \<and> attr cast2 = [(''to'', ADtype INT64)]
     \<and> op_type reshape = ''Reshape'' \<and> node_input reshape = input_id # node_output cast2"
  using assms by (simp add: adapt_simps)

theorem adapt_output_dynamic_path_witness:
  "output_shapes example_graph ''dyn_out:0'' = Some [1, - 1, - 1, 4]
   \<and> 2 \<le> count_list (drop 1 [1, - 1, - 1, 4 :: int]) (- 1)
   \<and> (\<exists>ns g'. adapt_scan_sequence_input_or_output ''scan_output_reshape'' ''dyn_out:0'' True
                 example_graph = (Inr ns, g')
        \<and> map op_type ns = [''Shape'', ''Cast'', ''Slice'', ''Cast'', ''Reshape''])"
proof -
  have h1: "output_shapes example_graph ''dyn_out:0'' = Some [1, - 1, - 1, 4]"
    by (simp add: example_graph_def)
  have h2: "2 \<le> count_list (drop 1 [1, - 1, - 1, 4 :: int]) (- 1)"
    by simp
  from adapt_output_dynamic_path [OF h1 h2, of "''scan_output_reshape''"] h1 h2
  show ?thesis by auto
qed

text \<open>
  C7.  In the input direction a tensor whose shape is entirely unknown takes the dynamic
  branch, where the Shape node, the constant 1 and the Concat node are made; the new shape
  \<^verbatim>\<open>[1] + inferred_shape\<close> is then computed from \<^verbatim>\<open>None\<close>, which faults.  Evaluated on
  the tensor \<^verbatim>\<open>unknown:0\<close> of the example graph, whose shape is not known.
\<close>

theorem adapt_input_unknown_shape_faults:
  "output_shapes example_graph ''unknown:0'' = None
   \<and> fst (adapt_scan_sequence_input_or_output ''input'' ''unknown:0'' False example_graph)
       = Inl TypeError
   \<and> map op_type (drop (length (nodes example_graph))
        (nodes (snd (adapt_scan_sequence_input_or_output ''input'' ''unknown:0'' False
                       example_graph))))
       = [''Shape'', ''Const'', ''Concat'']"
  by (simp add: adapt_simps example_graph_def)

text \<open>
  C10.  Every call of the adapter, in either direction, first appends a Shape node on the
  input tensor to the graph, also when the call faults later, and a returned node sequence
  starts with that node.  In the constant-shape case the sequence is the Shape node, the
  constant and the Reshape, the Reshape reads the input tensor and the constant, and the
  output of the Shape node is not among its inputs (the input tensor not being the freshly
  generated output of the Shape node itself).
\<close>

theorem adapt_always_emits_shape_node:
  "\<exists>shape_node.
     op_type shape_node = ''Shape'' \<and> node_input shape_node = [x]
     \<and> take (Suc (length (nodes g))) (nodes (snd (adapt_scan_sequence_input_or_output t x h g)))
         = nodes g @ [shape_node]
     \<and> (\<forall>ns. fst (adapt_scan_sequence_input_or_output t x h g) = Inr ns \<longrightarrow>
            ns \<noteq> [] \<and> hd ns = shape_node)
     \<and> (constant_shape_case g x h \<longrightarrow>
          (\<exists>c r. fst (adapt_scan_sequence_input_or_output t x h g) = Inr [shape_node, c, r]
             \<and> op_type c = ''Const'' \<and> op_type r = ''Reshape''
             \<and> node_input r = x # node_output c
             \<and> (x \<notin> set (node_output shape_node) \<longrightarrow>
                  set (node_output shape_node) \<inter> set (node_input r) = {})))"
  using shape_id_not_const_name [of "Suc (internal_name g)" t]
  by (cases h; cases "output_shapes g x")
     (auto simp add: adapt_simps constant_shape_case_def)

theorem adapt_always_emits_shape_node_witness:
  "constant_shape_case example_graph ''rnn/init_state:0'' False
   \<and> (\<exists>shape_node c r.
        fst (adapt_scan_sequence_input_or_output ''input'' ''rnn/init_state:0'' False example_graph)
          = Inr [shape_node, c, r]
        \<and> op_type shape_node = ''Shape'' \<and> node_input shape_node = [''rnn/init_state:0'']
        \<and> shape_node \<in> set (nodes (snd (adapt_scan_sequence_input_or_output ''input''
              ''rnn/init_state:0'' False example_graph)))
        \<and> set (node_output shape_node) \<inter> set (node_input r) = {})"
proof -
  let ?run = "adapt_scan_sequence_input_or_output ''input'' ''rnn/init_state:0'' False example_graph"
  have c: "constant_shape_case example_graph ''rnn/init_state:0'' False"
    by (simp add: constant_shape_case_def example_graph_def)
  from adapt_always_emits_shape_node [of "''rnn/init_state:0''" example_graph "''input''" False]
  obtain shape_node where
    s1: "op_type shape_node = ''Shape''" and
    s2: "node_input shape_node = [''rnn/init_state:0'']" and
    s3: "take (Suc (length (nodes example_graph))) (nodes (snd ?run))
           = nodes example_graph @ [shape_node]" and
    s4: "constant_shape_case example_graph ''rnn/init_state:0'' False \<longrightarrow>
          (\<exists>c r. fst ?run = Inr [shape_node, c, r]
             \<and> op_type c = ''Const'' \<and> op_type r = ''Reshape''
             \<and> node_input r = ''rnn/init_state:0'' # node_output c
             \<and> (''rnn/init_state:0'' \<notin> set (node_output shape_node) \<longrightarrow>
                  set (node_output shape_node) \<inter> set (node_input r) = {}))"
    by blast
  have "shape_node \<in> set (take (Suc (length (nodes example_graph))) (nodes (snd ?run)))"
    by (simp add: s3)
  then have m: "shape_node \<in> set (nodes (snd ?run))"
    by (rule in_set_takeD)
  have "nodes example_graph @ [shape_node]
      = nodes example_graph @ [Node ''Shape__2'' ''Shape'' [''rnn/init_state:0''] [''Shape__2:0''] []]"
    unfolding s3 [symmetric] by (simp add: adapt_simps example_graph_def show_nat_2)
  then have "node_output shape_node = [''Shape__2:0'']"
    by simp
  then have fresh: "''rnn/init_state:0'' \<notin> set (node_output shape_node)"
    by simp
  from s4 c fresh obtain c' r where
    "fst ?run = Inr [shape_node, c', r]" and
    "set (node_output shape_node) \<inter> set (node_input r) = {}"
    by blast
  with c s1 s2 m show ?thesis by blast
qed

section \<open>The pattern classifier: claims\<close>

text \<open>
  C2, as stated.  A loop with a step counter, one tensor-array variable whose declared name
  has the prefix of the derived scope, and a tensor-array input, but with a second
  tensor-array variable declared under another scope: \<^verbatim>\<open>need_rewrite\<close> returns false.
\<close>

theorem need_rewrite_one_prefixed_accumulator_counterexample:
  "list_ex (named_var classifier_graph
       (get_rnn_scope_name
          (while_context_scope (loop_context [time_variable, output_ta, foreign_ta])) @ ''time''))
     (loop_variables (loop_context [time_variable, output_ta, foreign_ta]))
   \<and> list_ex (prefixed_ta classifier_graph
       (get_rnn_scope_name
          (while_context_scope (loop_context [time_variable, output_ta, foreign_ta]))
        @ ''dynamic_rnn/output_''))
     (loop_variables (loop_context [time_variable, output_ta, foreign_ta]))
   \<and> tensor_array_inputs (loop_properties (loop_context [time_variable, output_ta, foreign_ta]))
       \<noteq> []
   \<and> fst (need_rewrite classifier_graph (loop_context [time_variable, output_ta, foreign_ta]))
       = Inr False"
  by code_simp

text \<open>
  C2, amended.  For every loop whose enter inputs resolve in the graph, whose variables
  include a step counter (no tensor array, enter input node named the derived scope followed
  by \<^verbatim>\<open>time\<close>), whose tensor-array variables all have a declared name starting with the
  derived scope followed by \<^verbatim>\<open>dynamic_rnn/output_\<close>, and which has at least one tensor-array
  input, \<^verbatim>\<open>need_rewrite\<close> returns true.
\<close>

theorem need_rewrite_true_when_all_prefixed:
  assumes "enter_nodes_resolved g (loop_variables ctx)"
    and "list_ex (named_var g (get_rnn_scope_name (while_context_scope ctx) @ ''time''))
           (loop_variables ctx)"
    and "list_all (\<lambda>v. \<not> mismatched_ta g
             (get_rnn_scope_name (while_context_scope ctx) @ ''dynamic_rnn/output_'') v)
           (loop_variables ctx)"
    and "tensor_array_inputs (loop_properties ctx) \<noteq> []"
  shows "fst (need_rewrite g ctx) = Inr True"
  using assms by (simp add: need_rewrite_resolved list_ex_iff list_all_iff)

theorem need_rewrite_true_when_all_prefixed_witness:
  "enter_nodes_resolved classifier_graph (loop_variables (loop_context [time_variable, output_ta]))
   \<and> fst (need_rewrite classifier_graph (loop_context [time_variable, output_ta])) = Inr True"
proof -
  let ?ctx = "loop_context [time_variable, output_ta]"
  have 1: "enter_nodes_resolved classifier_graph (loop_variables ?ctx)"
    by code_simp
  have 2: "list_ex (named_var classifier_graph
             (get_rnn_scope_name (while_context_scope ?ctx) @ ''time'')) (loop_variables ?ctx)"
    by code_simp
  have 3: "list_all (\<lambda>v. \<not> mismatched_ta classifier_graph
             (get_rnn_scope_name (while_context_scope ?ctx) @ ''dynamic_rnn/output_'') v)
           (loop_variables ?ctx)"
    by code_simp
  have 4: "tensor_array_inputs (loop_properties ?ctx) \<noteq> []"
    by code_simp
  from need_rewrite_true_when_all_prefixed [OF 1 2 3 4] 1 show ?thesis by simp
qed

text \<open>
  C3.  For every loop whose enter inputs resolve in the graph and whose derived scope is
  \<open>S\<close>: when some tensor-array variable has a declared name that does not start with \<open>S\<close>
  followed by \<^verbatim>\<open>dynamic_rnn/output_\<close>, \<^verbatim>\<open>need_rewrite\<close> returns false, as a value and not
  as a fault.
\<close>

theorem need_rewrite_false_on_prefix_mismatch:
  assumes "enter_nodes_resolved g (loop_variables ctx)"
    and "list_ex (mismatched_ta g
             (get_rnn_scope_name (while_context_scope ctx) @ ''dynamic_rnn/output_''))
           (loop_variables ctx)"
  shows "fst (need_rewrite g ctx) = Inr False"
  using assms by (simp add: need_rewrite_resolved)

theorem need_rewrite_false_on_prefix_mismatch_witness:
  "enter_nodes_resolved classifier_graph (loop_variables (loop_context [time_variable, foreign_ta]))
   \<and> list_ex (mismatched_ta classifier_graph
        (get_rnn_scope_name (while_context_scope (loop_context [time_variable, foreign_ta]))
         @ ''dynamic_rnn/output_''))
       (loop_variables (loop_context [time_variable, foreign_ta]))
   \<and> fst (need_rewrite classifier_graph (loop_context [time_variable, foreign_ta])) = Inr False"
proof -
  let ?ctx = "loop_context [time_variable, foreign_ta]"
  have 1: "enter_nodes_resolved classifier_graph (loop_variables ?ctx)"
    by code_simp
  have 2: "list_ex (mismatched_ta classifier_graph
             (get_rnn_scope_name (while_context_scope ?ctx) @ ''dynamic_rnn/output_''))
           (loop_variables ?ctx)"
    by code_simp
  from need_rewrite_false_on_prefix_mismatch [OF 1 2] 1 2 show ?thesis by simp
qed

text \<open>
  C8, as stated.  In a loop of while scope \<^verbatim>\<open>rnn/while/\<close> the derived scope is \<^verbatim>\<open>rnn/\<close>.
  A variable that is no tensor array and whose enter input node is named
  \<^verbatim>\<open>rnn/iteration_counter\<close>, the derived scope followed by \<^verbatim>\<open>iteration_counter\<close>, is not
  recorded: the iteration variable of the context stays unset.
\<close>

theorem iteration_counter_derived_scope_counterexample:
  "get_rnn_scope_name
       (while_context_scope (loop_context [time_variable, misplaced_counter, output_ta]))
     = ''rnn/''
   \<and> list_ex (named_var classifier_graph (''rnn/'' @ ''iteration_counter''))
        (loop_variables (loop_context [time_variable, misplaced_counter, output_ta]))
   \<and> fst (need_rewrite classifier_graph
            (loop_context [time_variable, misplaced_counter, output_ta])) = Inr True
   \<and> iteration_var (snd (need_rewrite classifier_graph
        (loop_context [time_variable, misplaced_counter, output_ta]))) = None"
  by code_simp

text \<open>
  C8, amended.  For every loop whose enter inputs resolve in the graph: when some variable
  that is no tensor array has an enter input node named the scope of the while loop itself
  (not the derived scope) followed by \<^verbatim>\<open>iteration_counter\<close>, such a variable is the
  iteration variable of the context after \<^verbatim>\<open>need_rewrite\<close>; when there is none, the
  iteration variable is left as it was and \<^verbatim>\<open>need_rewrite\<close> still returns true on a loop
  with a step counter, tensor arrays of the right prefix only, and a tensor-array input.
\<close>

theorem iteration_counter_recorded_and_optional:
  assumes "enter_nodes_resolved g (loop_variables ctx)"
  shows "(list_ex (named_var g (while_context_scope ctx @ ''iteration_counter''))
             (loop_variables ctx)
          \<longrightarrow> (\<exists>v\<in>set (loop_variables ctx).
                 named_var g (while_context_scope ctx @ ''iteration_counter'') v
                 \<and> iteration_var (snd (need_rewrite g ctx)) = Some v))
       \<and> (\<not> list_ex (named_var g (while_context_scope ctx @ ''iteration_counter''))
               (loop_variables ctx)
          \<longrightarrow> iteration_var (snd (need_rewrite g ctx)) = iteration_var ctx
              \<and> (list_ex (named_var g (get_rnn_scope_name (while_context_scope ctx) @ ''time''))
                     (loop_variables ctx)
                 \<and> list_all (\<lambda>v. \<not> mismatched_ta g
                       (get_rnn_scope_name (while_context_scope ctx) @ ''dynamic_rnn/output_'') v)
                     (loop_variables ctx)
                 \<and> tensor_array_inputs (loop_properties ctx) \<noteq> []
                 \<longrightarrow> fst (need_rewrite g ctx) = Inr True))"
proof -
  let ?tn = "get_rnn_scope_name (while_context_scope ctx) @ ''time''"
  let ?itn = "while_context_scope ctx @ ''iteration_counter''"
  have excl: "\<And>v. named_var g ?itn v \<Longrightarrow> \<not> named_var g ?tn v"
    using time_name_not_iteration_counter
      [of "get_rnn_scope_name (while_context_scope ctx)" "while_context_scope ctx"]
    by (auto simp: named_var_def)
  have "list_ex (named_var g ?itn) (loop_variables ctx) \<Longrightarrow>
      list_ex (\<lambda>v. named_var g ?itn v \<and> \<not> named_var g ?tn v) (loop_variables ctx)"
    using excl by (auto simp: list_ex_iff)
  then show ?thesis
    using assms record_vars_iteration [of g ?itn ?tn "loop_variables ctx"]
    by (simp add: need_rewrite_resolved record_vars_no_iteration list_ex_iff list_all_iff)
qed

theorem iteration_counter_recorded_and_optional_witness:
  "enter_nodes_resolved classifier_graph
      (loop_variables (loop_context [time_variable, iteration_variable, output_ta]))
   \<and> iteration_var (snd (need_rewrite classifier_graph
        (loop_context [time_variable, iteration_variable, output_ta]))) = Some iteration_variable
   \<and> enter_nodes_resolved classifier_graph (loop_variables (loop_context [time_variable, output_ta]))
   \<and> iteration_var (snd (need_rewrite classifier_graph (loop_context [time_variable, output_ta])))
       = None
   \<and> fst (need_rewrite classifier_graph (loop_context [time_variable, output_ta])) = Inr True"
proof -
  let ?with = "loop_context [time_variable, iteration_variable, output_ta]"
  let ?without = "loop_context [time_variable, output_ta]"
  let ?itn = "while_context_scope ?with @ ''iteration_counter''"
  have r1: "enter_nodes_resolved classifier_graph (loop_variables ?with)"
    by code_simp
  have p1: "list_ex (named_var classifier_graph ?itn) (loop_variables ?with)"
    by code_simp
  from iteration_counter_recorded_and_optional [OF r1] p1
  obtain v where v: "v \<in> set (loop_variables ?with)" "named_var classifier_graph ?itn v"
      "iteration_var (snd (need_rewrite classifier_graph ?with)) = Some v"
    by blast
  have only: "\<forall>u\<in>set (loop_variables ?with).
      named_var classifier_graph ?itn u \<longrightarrow> u = iteration_variable"
    by code_simp
  from v only have a: "iteration_var (snd (need_rewrite classifier_graph ?with))
      = Some iteration_variable"
    by blast
  have r2: "enter_nodes_resolved classifier_graph (loop_variables ?without)"
    by code_simp
  have n2: "\<not> list_ex (named_var classifier_graph
      (while_context_scope ?without @ ''iteration_counter'')) (loop_variables ?without)"
    by code_simp
  have t2: "list_ex (named_var classifier_graph
      (get_rnn_scope_name (while_context_scope ?without) @ ''time'')) (loop_variables ?without)"
    by code_simp
  have m2: "list_all (\<lambda>v. \<not> mismatched_ta classifier_graph
      (get_rnn_scope_name (while_context_scope ?without) @ ''dynamic_rnn/output_'') v)
      (loop_variables ?without)"
    by code_simp
  have i2: "tensor_array_inputs (loop_properties ?without) \<noteq> []"
    by code_simp
  have z: "iteration_var ?without = None"
    by (simp add: loop_context_def)
  from iteration_counter_recorded_and_optional [OF r2] n2 t2 m2 i2 z
  have b: "iteration_var (snd (need_rewrite classifier_graph ?without)) = None
      \<and> fst (need_rewrite classifier_graph ?without) = Inr True"
    by simp
  from a b r1 r2 show ?thesis by simp
qed

section \<open>The rewrite: claims\<close>

text \<open>
  C4.  \<^verbatim>\<open>rewrite\<close> is a total function into the two results: when the body of its
  \<^verbatim>\<open>try\<close> block faults, whatever the fault and wherever it is raised, the result is
  \<^verbatim>\<open>FAIL\<close>; when the body returns, it returns \<^verbatim>\<open>OK\<close> (a created Scan node is never
  false, so the early \<^verbatim>\<open>return FAIL\<close> is not taken) and so does \<^verbatim>\<open>rewrite\<close>; no other
  outcome exists.
\<close>

theorem rewrite_returns_ok_or_fail:
  "(\<forall>ex. fst (rewrite_try ctx g) = Inl ex \<longrightarrow> rewrite ctx g = (FAIL, snd (rewrite_try ctx g)))
   \<and> (\<forall>r. fst (rewrite_try ctx g) = Inr r \<longrightarrow>
         r = OK \<and> rewrite ctx g = (OK, snd (rewrite_try ctx g)))
   \<and> (fst (rewrite ctx g) = OK \<or> fst (rewrite ctx g) = FAIL)"
proof -
  obtain r g' where run: "rewrite_try ctx g = (r, g')" by (cases "rewrite_try ctx g")
  show ?thesis
  proof (cases r)
    case (Inl ex)
    with run show ?thesis by (simp add: rewrite_def)
  next
    case (Inr v)
    with run rewrite_try_value [of ctx g v g'] show ?thesis by (simp add: rewrite_def)
  qed
qed


theorem rewrite_returns_ok_or_fail_witness:
  "fst (rewrite_try (rewrite_context ''unknown:0'' (Some [4])) example_graph) = Inl TypeError
   \<and> fst (rewrite (rewrite_context ''unknown:0'' (Some [4])) example_graph) = FAIL
   \<and> fst (rewrite_try (rewrite_context ''rnn/init_state:0'' (Some [4])) example_graph) = Inr OK
   \<and> fst (rewrite (rewrite_context ''rnn/init_state:0'' (Some [4])) example_graph) = OK"
proof -
  note f = rewrite_context_fault
  from rewrite_context_run
  have s: "fst (rewrite_try (rewrite_context ''rnn/init_state:0'' (Some [4])) example_graph)
      = Inr OK"
    by auto
  from rewrite_returns_ok_or_fail [of "rewrite_context ''unknown:0'' (Some [4])" example_graph] f
  have 1: "fst (rewrite (rewrite_context ''unknown:0'' (Some [4])) example_graph) = FAIL"
    by simp
  from rewrite_returns_ok_or_fail [of "rewrite_context ''rnn/init_state:0'' (Some [4])" example_graph] s
  have 2: "fst (rewrite (rewrite_context ''rnn/init_state:0'' (Some [4])) example_graph) = OK"
    by simp
  from f s 1 2 show ?thesis by simp
qed

text \<open>
  C9.  After the initial values are adapted, \<^verbatim>\<open>_create_scan_node\<close> walks the exit tensors
  and removes the producer of every exit with a non-empty id.  When the walk completes, the
  Scan node is made on the graph that the walk left, from which these producers are gone.
  When the creation of the Scan node faults, in the walk or in \<^verbatim>\<open>make_node\<close>, \<^verbatim>\<open>rewrite\<close>
  returns \<^verbatim>\<open>FAIL\<close> with the graph as the fault left it, and the producers of the exits
  walked until then are absent from it: the graph is not restored.
\<close>

theorem exit_nodes_removed_not_restored:
  assumes a1: "adapt_initial_values (state_inputs_initial_values (loop_properties ctx)) g
                 = (Inr sv, ga)"
    and a2: "adapt_initial_values (scan_inputs_initial_values (loop_properties ctx)) ga
                 = (Inr xv, gb)"
    and a3: "cell_graph ctx = Some cg"
  shows "(\<forall>shapes dts g1.
            collect_exits (state_outputs_exits (loop_properties ctx)
                             @ scan_outputs_exits (loop_properties ctx)) gb
              = (Inr (shapes, dts), g1) \<longrightarrow>
            create_scan_node ctx (loop_properties ctx) (sv @ xv) gb
              = make_node ''Scan'' ([] # sv @ xv)
                  [(''num_scan_inputs'', AInt (int (length (scan_inputs (loop_properties ctx)))))]
                  (length (state_outputs (loop_properties ctx) @ scan_outputs (loop_properties ctx)))
                  shapes dts (Some ''custom_rnn_scan'') g1
            \<and> (\<forall>e\<in>set (state_outputs_exits (loop_properties ctx)
                           @ scan_outputs_exits (loop_properties ctx)).
                  \<forall>i n. ti_id e = Some i \<longrightarrow> i \<noteq> [] \<longrightarrow> get_node_by_output gb i = Some n
                    \<longrightarrow> n \<notin> set (nodes g1)))
       \<and> (\<forall>err g2.
            create_scan_node ctx (loop_properties ctx) (sv @ xv) gb = (Inl err, g2) \<longrightarrow>
            rewrite ctx g = (FAIL, g2)
            \<and> (\<forall>pre rest r g1.
                  state_outputs_exits (loop_properties ctx) @ scan_outputs_exits (loop_properties ctx)
                    = pre @ rest \<longrightarrow>
                  collect_exits pre gb = (Inr r, g1) \<longrightarrow>
                  (\<forall>e\<in>set pre. \<forall>i n. ti_id e = Some i \<longrightarrow> i \<noteq> [] \<longrightarrow>
                     get_node_by_output gb i = Some n \<longrightarrow> n \<notin> set (nodes g2))))"
proof (intro conjI allI impI)
  fix shapes dts g1
  assume c: "collect_exits (state_outputs_exits (loop_properties ctx)
               @ scan_outputs_exits (loop_properties ctx)) gb = (Inr (shapes, dts), g1)"
  then show "create_scan_node ctx (loop_properties ctx) (sv @ xv) gb
      = make_node ''Scan'' ([] # sv @ xv)
          [(''num_scan_inputs'', AInt (int (length (scan_inputs (loop_properties ctx)))))]
          (length (state_outputs (loop_properties ctx) @ scan_outputs (loop_properties ctx)))
          shapes dts (Some ''custom_rnn_scan'') g1"
    by (simp add: create_scan_node_def bindE_def)
  from c show "\<forall>e\<in>set (state_outputs_exits (loop_properties ctx)
                           @ scan_outputs_exits (loop_properties ctx)).
      \<forall>i n. ti_id e = Some i \<longrightarrow> i \<noteq> [] \<longrightarrow> get_node_by_output gb i = Some n
        \<longrightarrow> n \<notin> set (nodes g1)"
    using collect_exits_removed by blast
next
  fix err g2
  assume f: "create_scan_node ctx (loop_properties ctx) (sv @ xv) gb = (Inl err, g2)"
  show "rewrite ctx g = (FAIL, g2)"
    using a1 a2 a3 f by (simp add: rewrite_def rewrite_try_def bindE_def Let_def)
  fix pre rest r g1
  assume split: "state_outputs_exits (loop_properties ctx) @ scan_outputs_exits (loop_properties ctx)
      = pre @ rest"
    and p: "collect_exits pre gb = (Inr r, g1)"
  obtain r1 g3 where rest: "collect_exits rest g1 = (r1, g3)"
    by (cases "collect_exits rest g1")
  have sub: "set (nodes g2) \<subseteq> set (nodes g1)"
  proof (cases r1)
    case (Inl e1)
    with f split p rest have "g2 = g3"
      by (simp add: create_scan_node_def collect_exits_append bindE_def split_def)
    with collect_exits_subset [OF rest] show ?thesis by simp
  next
    case (Inr v)
    from Inr f split p rest obtain k sh dt where
      "make_node ''Scan'' ([] # sv @ xv)
          [(''num_scan_inputs'', AInt (int (length (scan_inputs (loop_properties ctx)))))]
          k sh dt (Some ''custom_rnn_scan'') g3 = (Inl err, g2)"
      by (simp add: create_scan_node_def collect_exits_append bindE_def split_def return_def)
    from make_node_fault_nodes [OF this] collect_exits_subset [OF rest] show ?thesis by simp
  qed
  show "\<forall>e\<in>set pre. \<forall>i n. ti_id e = Some i \<longrightarrow> i \<noteq> [] \<longrightarrow>
      get_node_by_output gb i = Some n \<longrightarrow> n \<notin> set (nodes g2)"
    using collect_exits_removed [OF p] sub by blast
qed

theorem exit_nodes_removed_not_restored_witness:
  "exit_2 \<in> set (nodes example_graph) \<and> exit_3 \<in> set (nodes example_graph)
   \<and> fst (rewrite undeclared_output_context example_graph) = FAIL
   \<and> exit_2 \<notin> set (nodes (snd (rewrite undeclared_output_context example_graph)))
   \<and> exit_3 \<notin> set (nodes (snd (rewrite undeclared_output_context example_graph)))"
proof -
  let ?ctx = undeclared_output_context
  let ?lp = "loop_properties ?ctx"
  let ?e2 = "float_tensor ''rnn/while/Exit_2:0'' (Some [4])"
  let ?e3 = "float_tensor ''rnn/while/Exit_3:0'' (Some [4])"
  have lp: "state_inputs_initial_values ?lp = [''rnn/init_state:0'']"
    "scan_inputs_initial_values ?lp = [''rnn/seq:0'']"
    "state_outputs_exits ?lp = [?e2]" "scan_outputs_exits ?lp = [?e3]"
    "length (state_outputs ?lp @ scan_outputs ?lp) = Suc 0"
    by (simp_all add: undeclared_output_context_def rewrite_context_def)
  obtain cg where a3: "cell_graph ?ctx = Some cg"
    by (simp add: undeclared_output_context_def rewrite_context_def)
  have "output_shapes example_graph ''rnn/init_state:0'' = Some [4]"
    by (simp add: example_graph_def)
  from adapt_initial_values_single [OF this] obtain sv ga ex1 where
    a1: "adapt_initial_values [''rnn/init_state:0''] example_graph = (Inr [sv], ga)"
    and n1: "nodes ga = nodes example_graph @ ex1"
    and k1: "\<forall>y. output_shapes example_graph y \<noteq> None \<longrightarrow> output_shapes ga y \<noteq> None"
    by blast
  have "output_shapes example_graph ''rnn/seq:0'' \<noteq> None"
    by (simp add: example_graph_def)
  with k1 obtain xs where "output_shapes ga ''rnn/seq:0'' = Some xs"
    by auto
  from adapt_initial_values_single [OF this] obtain xv gb ex2 where
    a2: "adapt_initial_values [''rnn/seq:0''] ga = (Inr [xv], gb)"
    and n2: "nodes gb = nodes ga @ ex2"
    by blast
  have l2: "get_node_by_output gb ''rnn/while/Exit_2:0'' = Some exit_2"
    and l3: "get_node_by_output gb ''rnn/while/Exit_3:0'' = Some exit_3"
    using n1 n2 by (simp_all add: example_defs)
  have ids: "ti_id ?e2 = Some ''rnn/while/Exit_2:0''" "''rnn/while/Exit_2:0'' \<noteq> []"
    "ti_shape ?e2 = Some [4]"
    "ti_id ?e3 = Some ''rnn/while/Exit_3:0''" "''rnn/while/Exit_3:0'' \<noteq> []"
    "ti_shape ?e3 = Some [4]"
    by (simp_all add: float_tensor_def)
  have names: "node_name exit_2 \<noteq> node_name exit_3"
    by (simp add: exit_2_def exit_3_def)
  obtain shapes dts g1 where c0: "collect_exits [?e2, ?e3] gb = (Inr (shapes, dts), g1)"
    and len: "length shapes = 2"
    using collect_exits_pair [OF ids l2 l3 names] by simp
  from c0 lp have c: "collect_exits (state_outputs_exits ?lp @ scan_outputs_exits ?lp) gb
      = (Inr (shapes, dts), g1)"
    by simp
  from a1 a2 lp have a1': "adapt_initial_values (state_inputs_initial_values ?lp) example_graph
      = (Inr [sv], ga)"
    and a2': "adapt_initial_values (scan_inputs_initial_values ?lp) ga = (Inr [xv], gb)"
    by simp_all
  note main = exit_nodes_removed_not_restored [OF a1' a2' a3]
  from main c have made: "create_scan_node ?ctx ?lp ([sv] @ [xv]) gb
      = make_node ''Scan'' ([] # [sv] @ [xv])
          [(''num_scan_inputs'', AInt (int (length (scan_inputs ?lp))))]
          (length (state_outputs ?lp @ scan_outputs ?lp))
          shapes dts (Some ''custom_rnn_scan'') g1"
    by blast
  have "fst (make_node ''Scan'' ([] # [sv] @ [xv])
          [(''num_scan_inputs'', AInt (int (length (scan_inputs ?lp))))]
          (length (state_outputs ?lp @ scan_outputs ?lp))
          shapes dts (Some ''custom_rnn_scan'') g1) = Inl ValueError"
    using len lp(5) by (auto simp add: make_node_def make_name_def bindE_def raise_def Let_def)
  with made obtain g2 where f: "create_scan_node ?ctx ?lp ([sv] @ [xv]) gb = (Inl ValueError, g2)"
    by (cases "create_scan_node ?ctx ?lp ([sv] @ [xv]) gb") simp
  from main f have r: "rewrite ?ctx example_graph = (FAIL, g2)"
    by blast
  have split: "state_outputs_exits ?lp @ scan_outputs_exits ?lp = [?e2, ?e3] @ []"
    using lp by simp
  from main f split c0
  have gone: "\<forall>e\<in>set [?e2, ?e3]. \<forall>i n. ti_id e = Some i \<longrightarrow> i \<noteq> [] \<longrightarrow>
      get_node_by_output gb i = Some n \<longrightarrow> n \<notin> set (nodes g2)"
    by blast
  from gone ids l2 have g2: "exit_2 \<notin> set (nodes g2)"
    by simp
  from gone ids l3 have g3: "exit_3 \<notin> set (nodes g2)"
    by simp
  have "exit_2 \<in> set (nodes example_graph)" "exit_3 \<in> set (nodes example_graph)"
    by (simp_all add: example_defs)
  with r g2 g3 show ?thesis by simp
qed

text \<open>
  C1, as stated.  The loop of the example has exactly one step counter, whose enter input
  node is named \<^verbatim>\<open>rnn/time\<close>, one further state variable of shape \<open>[4]\<close>, and one
  tensor-array variable of the right prefix with a scan input and a scan output of shape
  \<open>[4]\<close>.  The step counter is a loop-carried variable that is no tensor array, so the state
  lists hold it; its exit is not consumed.  \<^verbatim>\<open>need_rewrite\<close> accepts the loop and \<^verbatim>\<open>rewrite\<close>
  returns \<^verbatim>\<open>OK\<close>, but every Scan node of the resulting graph declares three outputs, the
  first without a shape, and a body graph of three inputs, the step counter first: none
  declares exactly two outputs and two body inputs.
\<close>

theorem rewrite_step_counter_counterexample:
  "derived_partitions (loop_properties counter_context)
   \<and> filter (named_var counter_graph
               (get_rnn_scope_name (while_context_scope counter_context) @ ''time''))
        (loop_variables counter_context) = [counter_variable]
   \<and> filter (\<lambda>v. \<not> is_tensor_array v) (loop_variables counter_context)
        = [counter_variable, state_variable]
   \<and> ti_shape (switch_true_identity_output state_variable) = Some [4]
   \<and> output_shapes counter_graph (enter_input_id state_variable) = Some [4]
   \<and> filter is_tensor_array (loop_variables counter_context) = [accumulator_variable]
   \<and> prefixed_ta counter_graph
        (get_rnn_scope_name (while_context_scope counter_context) @ ''dynamic_rnn/output_'')
        accumulator_variable
   \<and> map ti_shape (scan_inputs (loop_properties counter_context)
                     @ scan_outputs (loop_properties counter_context)) = [Some [4], Some [4]]
   \<and> fst (need_rewrite counter_graph counter_context) = Inr True
   \<and> fst (rewrite (snd (need_rewrite counter_graph counter_context)) counter_graph) = OK
   \<and> set (scan_declarations
             (snd (rewrite (snd (need_rewrite counter_graph counter_context)) counter_graph)))
       = {(3, [None, Some [1, 4], Some [1, 4]], Some (AInt 1),
           [Some ''rnn/while/Identity:0'', Some ''rnn/while/Identity_2:0'',
            Some ''rnn/while/TensorArrayReadV3:0''])}"
proof -
  let ?ctx = "snd (need_rewrite counter_graph counter_context)"
  let ?tn = "get_rnn_scope_name (while_context_scope counter_context) @ ''time''"
  let ?pf = "get_rnn_scope_name (while_context_scope counter_context) @ ''dynamic_rnn/output_''"
  note keeps = need_rewrite_keeps [OF counter_context_resolved]
  have scope: "get_rnn_scope_name (while_context_scope counter_context) = ''rnn/''"
    by (simp add: counter_context_def rnn_scope_example)
  have p1: "derived_partitions (loop_properties counter_context)"
    by (simp add: derived_partitions_def Let_def counter_defs)
  have p2: "filter (named_var counter_graph ?tn) (loop_variables counter_context)
      = [counter_variable]"
    unfolding scope by (simp add: named_var_def enter_node_name_def counter_defs)
  have p3: "filter (\<lambda>v. \<not> is_tensor_array v) (loop_variables counter_context)
      = [counter_variable, state_variable]"
    "ti_shape (switch_true_identity_output state_variable) = Some [4]"
    "output_shapes counter_graph (enter_input_id state_variable) = Some [4]"
    "filter is_tensor_array (loop_variables counter_context) = [accumulator_variable]"
    "map ti_shape (scan_inputs (loop_properties counter_context)
                     @ scan_outputs (loop_properties counter_context)) = [Some [4], Some [4]]"
    by (simp_all add: counter_defs)
  have p4: "prefixed_ta counter_graph ?pf accumulator_variable"
    unfolding scope
    by (simp add: prefixed_ta_def declared_ta_name_def get_attr_def startswith_def counter_defs)
  let ?ti = "switch_true_identity_output counter_variable"
  let ?si = "switch_true_identity_output state_variable"
  let ?xi = "float_tensor ''rnn/while/TensorArrayReadV3:0'' (Some [4])"
  have "\<exists>gh scan o0 o1 o2. rewrite_try ?ctx counter_graph = (Inr OK, gh)
     \<and> scan \<in> set (nodes gh)
     \<and> op_type scan = ''Scan''
     \<and> get_attr scan ''num_scan_inputs'' = Some (AInt 1)
     \<and> node_output scan = [o0, o1, o2]
     \<and> output_shapes gh o0 = None
     \<and> output_shapes gh o1 = Some [1, 4]
     \<and> output_shapes gh o2 = Some [1, 4]
     \<and> get_attr scan ''body''
          = Some (AGraph (cg_nodes (the (cell_graph counter_context)))
                    (cg_outputs (the (cell_graph counter_context))) [?ti, ?si, ?xi])
     \<and> (\<forall>n\<in>set (nodes gh). op_type n = ''Scan'' \<longrightarrow>
            n = scan \<or> (\<exists>m\<in>set (nodes counter_graph). op_type m = ''Scan''))"
    by (rule rewrite_try_counter_state_pair [where ctx = ?ctx and g = counter_graph
          and ti = ?ti and si = ?si and xi = ?xi
          and tiv = "''rnn/time:0''" and siv = "''rnn/init_state:0''" and xiv = "''rnn/seq:0''"
          and te = "\<lparr>ti_id = None, ti_dtype = None, ti_shape = None\<rparr>"
          and se = "float_tensor ''rnn/while/Exit_2:0'' (Some [4])"
          and xe = "float_tensor ''rnn/while/Exit_3:0'' (Some [4])"
          and cg = "the (cell_graph counter_context)" and ts = "[]" and T = "- 1"
          and sid = "''rnn/while/Exit_2:0''" and xid = "''rnn/while/Exit_3:0''"
          and ns = exit_2 and nx = exit_3])
       (unfold keeps, simp_all add: counter_defs)
  then obtain gh scan o0 o1 o2 where
    run: "rewrite_try ?ctx counter_graph = (Inr OK, gh)"
    and scan: "scan \<in> set (nodes gh)" "op_type scan = ''Scan''"
      "get_attr scan ''num_scan_inputs'' = Some (AInt 1)"
      "node_output scan = [o0, o1, o2]"
      "output_shapes gh o0 = None" "output_shapes gh o1 = Some [1, 4]"
      "output_shapes gh o2 = Some [1, 4]"
      "get_attr scan ''body''
          = Some (AGraph (cg_nodes (the (cell_graph counter_context)))
                    (cg_outputs (the (cell_graph counter_context))) [?ti, ?si, ?xi])"
    and only: "\<forall>n\<in>set (nodes gh). op_type n = ''Scan'' \<longrightarrow>
            n = scan \<or> (\<exists>m\<in>set (nodes counter_graph). op_type m = ''Scan'')"
    by blast
  have "\<forall>m\<in>set (nodes counter_graph). op_type m \<noteq> ''Scan''"
    by (simp add: counter_defs)
  with only scan(1,2) have "{n \<in> set (nodes gh). op_type n = ''Scan''} = {scan}"
    by blast
  then have "set (scan_declarations gh)
      = {(length (node_output scan), map (output_shapes gh) (node_output scan),
          get_attr scan ''num_scan_inputs'', body_input_ids (get_attr scan ''body''))}"
    by (simp add: scan_declarations_def)
  with scan have decl: "set (scan_declarations gh)
      = {(3, [None, Some [1, 4], Some [1, 4]], Some (AInt 1),
           [Some ''rnn/while/Identity:0'', Some ''rnn/while/Identity_2:0'',
            Some ''rnn/while/TensorArrayReadV3:0''])}"
    by (simp add: counter_variable_def state_variable_def float_tensor_def)
  from run have res: "rewrite ?ctx counter_graph = (OK, gh)"
    by (simp add: rewrite_def)
  from p1 p2 p3 p4 counter_context_accepted decl show ?thesis
    unfolding res by simp
qed

text \<open>
  C1, amended.  For every loop whose enter inputs resolve in the graph and whose state lists
  are derived from its loop-carried variables: when the variables that are no tensor arrays
  are the step counter (enter input node named the derived scope followed by \<^verbatim>\<open>time\<close>, exit
  not consumed, initial value of known shape) and then one state variable with an initial
  value of shape \<open>[4]\<close>, the only tensor-array variable has a declared name of the right
  prefix, there is one tensor-array input with a sequence of shape \<open>[T, 4]\<close>, the loop has
  a cell graph, and the exits of the state variable and of the tensor array have shape
  \<open>[4]\<close> and non-empty ids produced by two nodes of different names, then \<^verbatim>\<open>need_rewrite\<close>
  returns true and \<^verbatim>\<open>rewrite\<close> returns \<^verbatim>\<open>OK\<close>, and the graph holds a Scan node whose
  \<^verbatim>\<open>num_scan_inputs\<close> is 1, which has three outputs, the first (of the step counter)
  without a declared shape and the other two of declared shape \<open>[1, 4]\<close>, and whose body
  graph declares three inputs: the step counter, the state input, and then the scan input.
\<close>

theorem rewrite_counter_state_and_sequence:
  assumes resolved: "enter_nodes_resolved g (loop_variables ctx)"
    and part: "derived_partitions (loop_properties ctx)"
    and state_vars: "filter (\<lambda>v. \<not> is_tensor_array v) (loop_variables ctx) = [counter, state]"
    and counter: "enter_node_name g counter
                    = Some (get_rnn_scope_name (while_context_scope ctx) @ ''time'')"
    and scan_vars: "filter is_tensor_array (loop_variables ctx) = [accumulator]"
    and prefix: "prefixed_ta g
                   (get_rnn_scope_name (while_context_scope ctx) @ ''dynamic_rnn/output_'')
                   accumulator"
    and ta_in: "tensor_array_inputs (loop_properties ctx) = [ta_input]"
    and cg: "cell_graph ctx = Some cg"
    and counter_shape: "output_shapes g (enter_input_id counter) = Some ts"
    and state_shape: "output_shapes g (enter_input_id state) = Some [4]"
    and xiv: "scan_inputs_initial_values (loop_properties ctx) = [xiv]"
    and xiv_shape: "output_shapes g xiv = Some [T, 4]"
    and se: "state_outputs_exits (loop_properties ctx) = [te, se]"
    and xe: "scan_outputs_exits (loop_properties ctx) = [xe]"
    and te_id: "\<not> truthy_id (ti_id te)"
    and se_id: "ti_id se = Some sid" "sid \<noteq> []" and se_shape: "ti_shape se = Some [4]"
    and xe_id: "ti_id xe = Some xid" "xid \<noteq> []" and xe_shape: "ti_shape xe = Some [4]"
    and s_exit: "get_node_by_output g sid = Some ns"
    and x_exit: "get_node_by_output g xid = Some nx"
    and distinct_exits: "node_name ns \<noteq> node_name nx"
  shows "fst (need_rewrite g ctx) = Inr True
     \<and> fst (rewrite (snd (need_rewrite g ctx)) g) = OK
     \<and> (\<exists>scan\<in>set (nodes (snd (rewrite (snd (need_rewrite g ctx)) g))).
          op_type scan = ''Scan''
          \<and> get_attr scan ''num_scan_inputs'' = Some (AInt 1)
          \<and> length (node_output scan) = 3
          \<and> map (output_shapes (snd (rewrite (snd (need_rewrite g ctx)) g))) (node_output scan)
              = [None, Some [1, 4], Some [1, 4]]
          \<and> get_attr scan ''body''
              = Some (AGraph (cg_nodes cg) (cg_outputs cg)
                        ([switch_true_identity_output counter, switch_true_identity_output state]
                         @ scan_inputs (loop_properties ctx))))"
proof -
  let ?ctx = "snd (need_rewrite g ctx)"
  let ?tn = "get_rnn_scope_name (while_context_scope ctx) @ ''time''"
  let ?pf = "get_rnn_scope_name (while_context_scope ctx) @ ''dynamic_rnn/output_''"
  note keeps = need_rewrite_keeps [OF resolved]
  have "counter \<in> set (filter (\<lambda>v. \<not> is_tensor_array v) (loop_variables ctx))"
    using state_vars by simp
  then have "counter \<in> set (loop_variables ctx)" "\<not> is_tensor_array counter"
    by simp_all
  with counter have found: "list_ex (named_var g ?tn) (loop_variables ctx)"
    by (auto simp: list_ex_iff named_var_def)
  have "\<And>v. v \<in> set (loop_variables ctx) \<Longrightarrow> is_tensor_array v \<Longrightarrow> v = accumulator"
    using filter_singleton_all [OF scan_vars] by blast
  with prefix have ok: "\<not> list_ex (mismatched_ta g ?pf) (loop_variables ctx)"
    by (auto simp: list_ex_iff mismatched_ta_def prefixed_ta_def split: option.splits)
  have accepted: "fst (need_rewrite g ctx) = Inr True"
    using found ok ta_in by (simp add: need_rewrite_resolved [OF resolved])
  have vars: "map snd (all_variables (loop_properties ctx)) = loop_variables ctx"
    by (simp add: loop_variables_def)
  from part
  have lists: "state_inputs (loop_properties ctx)
        = [switch_true_identity_output counter, switch_true_identity_output state]"
      "state_inputs_initial_values (loop_properties ctx)
        = [enter_input_id counter, enter_input_id state]"
      "length (state_outputs (loop_properties ctx)) = 2"
      "length (scan_outputs (loop_properties ctx)) = 1"
      "length (scan_inputs (loop_properties ctx)) = 1"
    unfolding derived_partitions_def Let_def vars state_vars scan_vars ta_in by simp_all
  from lists(5) obtain xi where xi: "scan_inputs (loop_properties ctx) = [xi]"
    by (cases "scan_inputs (loop_properties ctx)") auto
  from rewrite_try_counter_state_pair
    [of ?ctx "switch_true_identity_output counter" "switch_true_identity_output state" xi
        "enter_input_id counter" "enter_input_id state" xiv te se xe cg g ts T sid xid ns nx]
    lists xi xiv se xe cg counter_shape state_shape xiv_shape te_id se_id se_shape xe_id xe_shape
    s_exit x_exit distinct_exits
  obtain gh scan o0 o1 o2 where
    run: "rewrite_try ?ctx g = (Inr OK, gh)"
    and scan: "scan \<in> set (nodes gh)" "op_type scan = ''Scan''"
      "get_attr scan ''num_scan_inputs'' = Some (AInt 1)"
      "node_output scan = [o0, o1, o2]"
      "output_shapes gh o0 = None" "output_shapes gh o1 = Some [1, 4]"
      "output_shapes gh o2 = Some [1, 4]"
      "get_attr scan ''body''
         = Some (AGraph (cg_nodes cg) (cg_outputs cg)
                   [switch_true_identity_output counter, switch_true_identity_output state, xi])"
    unfolding keeps by blast
  from run have res: "rewrite ?ctx g = (OK, gh)"
    by (simp add: rewrite_def)
  show ?thesis
    unfolding res using accepted scan xi by (intro conjI bexI [of _ scan]) simp_all
qed

theorem rewrite_counter_state_and_sequence_witness:
  "enter_nodes_resolved counter_graph (loop_variables counter_context)
   \<and> derived_partitions (loop_properties counter_context)
   \<and> fst (need_rewrite counter_graph counter_context) = Inr True
   \<and> fst (rewrite (snd (need_rewrite counter_graph counter_context)) counter_graph) = OK
   \<and> (\<exists>scan\<in>set (nodes (snd (rewrite (snd (need_rewrite counter_graph counter_context))
                                   counter_graph))).
        op_type scan = ''Scan''
        \<and> get_attr scan ''num_scan_inputs'' = Some (AInt 1)
        \<and> length (node_output scan) = 3
        \<and> map (output_shapes (snd (rewrite (snd (need_rewrite counter_graph counter_context))
                                      counter_graph))) (node_output scan)
            = [None, Some [1, 4], Some [1, 4]]
        \<and> body_input_ids (get_attr scan ''body'')
            = [Some ''rnn/while/Identity:0'', Some ''rnn/while/Identity_2:0'',
               Some ''rnn/while/TensorArrayReadV3:0''])"
proof -
  let ?ctx = "snd (need_rewrite counter_graph counter_context)"
  let ?res = "snd (rewrite ?ctx counter_graph)"
  have scope: "get_rnn_scope_name (while_context_scope counter_context) = ''rnn/''"
    by (simp add: counter_context_def rnn_scope_example)
  have p1: "derived_partitions (loop_properties counter_context)"
    by (simp add: derived_partitions_def Let_def counter_defs)
  have main: "fst (need_rewrite counter_graph counter_context) = Inr True
     \<and> fst (rewrite ?ctx counter_graph) = OK
     \<and> (\<exists>scan\<in>set (nodes ?res).
          op_type scan = ''Scan''
          \<and> get_attr scan ''num_scan_inputs'' = Some (AInt 1)
          \<and> length (node_output scan) = 3
          \<and> map (output_shapes ?res) (node_output scan) = [None, Some [1, 4], Some [1, 4]]
          \<and> get_attr scan ''body''
              = Some (AGraph (cg_nodes (the (cell_graph counter_context)))
                        (cg_outputs (the (cell_graph counter_context)))
                        ([switch_true_identity_output counter_variable,
                          switch_true_identity_output state_variable]
                         @ scan_inputs (loop_properties counter_context))))"
  proof (rule rewrite_counter_state_and_sequence [where ctx = counter_context and g = counter_graph
          and counter = counter_variable and state = state_variable
          and accumulator = accumulator_variable and ta_input = "''rnn/TensorArray_1:1''"
          and xiv = "''rnn/seq:0''"
          and te = "\<lparr>ti_id = None, ti_dtype = None, ti_shape = None\<rparr>"
          and se = "float_tensor ''rnn/while/Exit_2:0'' (Some [4])"
          and xe = "float_tensor ''rnn/while/Exit_3:0'' (Some [4])"
          and cg = "the (cell_graph counter_context)" and ts = "[]" and T = "- 1"
          and sid = "''rnn/while/Exit_2:0''" and xid = "''rnn/while/Exit_3:0''"
          and ns = exit_2 and nx = exit_3])
    show "enter_nodes_resolved counter_graph (loop_variables counter_context)"
      by (rule counter_context_resolved)
    show "derived_partitions (loop_properties counter_context)"
      by (rule p1)
    show "enter_node_name counter_graph counter_variable
        = Some (get_rnn_scope_name (while_context_scope counter_context) @ ''time'')"
      unfolding scope by (simp add: enter_node_name_def counter_defs)
    show "prefixed_ta counter_graph
        (get_rnn_scope_name (while_context_scope counter_context) @ ''dynamic_rnn/output_'')
        accumulator_variable"
      unfolding scope
      by (simp add: prefixed_ta_def declared_ta_name_def get_attr_def startswith_def counter_defs)
  qed (simp_all add: counter_defs)
  note r = conjunct1 [OF main] conjunct1 [OF conjunct2 [OF main]]
  from main obtain scan where s: "scan \<in> set (nodes ?res)" "op_type scan = ''Scan''"
      "get_attr scan ''num_scan_inputs'' = Some (AInt 1)"
      "length (node_output scan) = 3"
      "map (output_shapes ?res) (node_output scan) = [None, Some [1, 4], Some [1, 4]]"
    and body: "get_attr scan ''body''
              = Some (AGraph (cg_nodes (the (cell_graph counter_context)))
                        (cg_outputs (the (cell_graph counter_context)))
                        ([switch_true_identity_output counter_variable,
                          switch_true_identity_output state_variable]
                         @ scan_inputs (loop_properties counter_context)))"
    by (elim conjE bexE) (rule that)
  from body have ids: "body_input_ids (get_attr scan ''body'')
      = [Some ''rnn/while/Identity:0'', Some ''rnn/while/Identity_2:0'',
         Some ''rnn/while/TensorArrayReadV3:0'']"
    by (simp add: counter_defs)
  from counter_context_resolved p1 r s ids show ?thesis
    by (intro conjI bexI [of _ scan]) assumption+
qed

end
